theory Spec2Isabelle
  imports Main "HOL-Library.Word"
begin

unbundle bit_operations_syntax

section \<open>Bytes, times and addresses\<close>

type_synonym byte = "8 word"

text \<open>\<^verbatim>\<open>byte_string\<close> is a string of \<^verbatim>\<open>uint8_t\<close>; a
  \<^verbatim>\<open>system_clock::time_point\<close> is a tick count, of which the writer only
  copies and compares values.\<close>

type_synonym byte_string = "byte list"
type_synonym time_point = int

text \<open>\<^verbatim>\<open>IPAddress\<close> is declared in another header of the capture library. The writer asks an
  address two things: \<^verbatim>\<open>is_ipv6()\<close> and \<^verbatim>\<open>asNetworkBinary()\<close>.\<close>

record IPAddress =
  is_ipv6 :: bool
  asNetworkBinary :: byte_string

section \<open>Configuration\<close>

text \<open>\<^verbatim>\<open>HintsExcluded\<close>: one flag per optional field. The member
  \<^verbatim>\<open>exclude.x\<close> of the source is the field \<open>exclude_x\<close> here, because the
  signature and the item have members of the same names.\<close>

record HintsExcluded =
  exclude_timestamp :: bool
  exclude_client_address :: bool
  exclude_client_port :: bool
  exclude_client_hoplimit :: bool
  exclude_server_address :: bool
  exclude_server_port :: bool
  exclude_transport :: bool
  exclude_transaction_id :: bool
  exclude_qr_flags :: bool
  exclude_transaction_type :: bool
  exclude_qr_signature :: bool
  exclude_dns_flags :: bool
  exclude_query_qdcount :: bool
  exclude_query_class_type :: bool
  exclude_query_name :: bool
  exclude_query_size :: bool
  exclude_query_opcode :: bool
  exclude_query_rcode :: bool
  exclude_query_ancount :: bool
  exclude_query_arcount :: bool
  exclude_query_nscount :: bool
  exclude_query_udp_size :: bool
  exclude_query_edns_version :: bool
  exclude_query_opt_rdata :: bool
  exclude_response_size :: bool
  exclude_response_rcode :: bool
  exclude_response_delay :: bool
  exclude_address_events :: bool

text \<open>The members of \<^verbatim>\<open>Configuration\<close> that the writer reads. The prefix
  lengths enter \<^verbatim>\<open>unsigned\<close> arithmetic in \<^verbatim>\<open>addr_to_string\<close>.\<close>

record Configuration =
  client_address_prefix_ipv4 :: "32 word"
  client_address_prefix_ipv6 :: "32 word"
  server_address_prefix_ipv4 :: "32 word"
  server_address_prefix_ipv6 :: "32 word"
  max_block_items :: nat
  start_end_times_from_data :: bool
  exclude_hints :: HintsExcluded

section \<open>Address masking\<close>

text \<open>\<^verbatim>\<open>std::basic_string::resize(n)\<close>: cut to \<open>n\<close> elements, or pad with
  value-initialised (zero) elements up to \<open>n\<close>.\<close>

definition resize :: "nat \<Rightarrow> byte_string \<Rightarrow> byte_string" where
  "resize n res = take n res @ replicate (n - length res) 0"

text \<open>The choice of the prefix length, lines 33-36 of \<^verbatim>\<open>addr_to_string\<close>.\<close>

definition select_prefix_len :: "IPAddress \<Rightarrow> Configuration \<Rightarrow> bool \<Rightarrow> 32 word" where
  "select_prefix_len addr config is_client =
     (if is_ipv6 addr
      then (if is_client then client_address_prefix_ipv6 config
            else server_address_prefix_ipv6 config)
      else (if is_client then client_address_prefix_ipv4 config
            else server_address_prefix_ipv4 config))"

text \<open>Lines 37-42 of \<^verbatim>\<open>addr_to_string\<close>, on the bytes of the address. The
  mask \<^verbatim>\<open>0xff << k\<close> is computed in \<^verbatim>\<open>int\<close> and the compound assignment
  stores its low eight bits and-ed with the byte.\<close>

definition mask_bytes :: "32 word \<Rightarrow> byte_string \<Rightarrow> byte_string" where
  "mask_bytes prefix_len bytes =
     (let prefix_nbytes = (prefix_len + 7) div 8;
          res = resize (unat prefix_nbytes) bytes
      in if prefix_nbytes > 0
         then res[unat prefix_nbytes - 1 :=
                    (res ! (unat prefix_nbytes - 1)) AND
                    ucast (push_bit (unat (prefix_nbytes * 8 - prefix_len)) (0xff :: 32 word))]
         else res)"

definition addr_to_string :: "IPAddress \<Rightarrow> Configuration \<Rightarrow> bool \<Rightarrow> byte_string" where
  "addr_to_string addr config is_client =
     mask_bytes (select_prefix_len addr config is_client) (asNetworkBinary addr)"

text \<open>Bit \<open>i\<close> of a byte string in network order: bit 0 is the most significant bit of
  the first byte.\<close>

definition bit_at :: "byte_string \<Rightarrow> nat \<Rightarrow> bool" where
  "bit_at bs i = bit (bs ! (i div 8)) (7 - i mod 8)"

section \<open>DNS messages and transactions\<close>

text \<open>The parsed messages come from \<^verbatim>\<open>capturedns.hpp\<close> and
  \<^verbatim>\<open>dnsmessage.hpp\<close>, outside \<^verbatim>\<open>blockcborwriter.cpp\<close>; the records below hold
  what \<^verbatim>\<open>writeBasic\<close> reads from them. The header's RCODE is the base four-bit
  rcode; the OPT record carries the eight-bit extended rcode.\<close>

record Question =
  dname :: byte_string
  query_type :: "16 word"
  query_class :: "16 word"

record EDNS0 =
  extended_rcode :: "8 word"
  udp_payload_size :: "16 word"
  edns_version :: "8 word"
  rr_data :: byte_string

record DNS =
  dns_id :: "16 word"
  opcode :: "8 word"
  rcode :: "4 word"
  questions_count :: "16 word"
  answers_count :: "16 word"
  authority_count :: "16 word"
  additional_count :: "16 word"
  queries :: "Question list"
  edns0 :: "EDNS0 option"

record DNSMessage =
  timestamp :: time_point
  clientIP :: "IPAddress option"
  serverIP :: "IPAddress option"
  clientPort :: "16 word option"
  serverPort :: "16 word option"
  hoplimit :: "8 word option"
  wire_size :: "32 word option"
  dns :: DNS

text \<open>A \<^verbatim>\<open>QueryResponse\<close> holds a query, a response or both. The values of
  \<^verbatim>\<open>block_cbor::transport_flags\<close>, \<^verbatim>\<open>transaction_type\<close> and
  \<^verbatim>\<open>dns_flags\<close> on it are computed in \<^verbatim>\<open>blockcbor.hpp\<close> and are carried
  along as fields.\<close>

datatype Exchange =
    QueryOnly DNSMessage
  | ResponseOnly DNSMessage
  | QueryAndResponse DNSMessage DNSMessage

record QueryResponse =
  exchange :: Exchange
  cbor_transport_flags :: "8 word"
  cbor_transaction_type :: "8 word"
  cbor_dns_flags :: "16 word"

fun query_of :: "Exchange \<Rightarrow> DNSMessage option" where
  "query_of (QueryOnly q) = Some q"
| "query_of (ResponseOnly r) = None"
| "query_of (QueryAndResponse q r) = Some q"

fun response_of :: "Exchange \<Rightarrow> DNSMessage option" where
  "response_of (QueryOnly q) = None"
| "response_of (ResponseOnly r) = Some r"
| "response_of (QueryAndResponse q r) = Some r"

definition has_query :: "QueryResponse \<Rightarrow> bool" where
  "has_query qr = (query_of (exchange qr) \<noteq> None)"

definition has_response :: "QueryResponse \<Rightarrow> bool" where
  "has_response qr = (response_of (exchange qr) \<noteq> None)"

text \<open>\<^verbatim>\<open>qr->has_query() ? qr->query() : qr->response()\<close>, the message that
  \<^verbatim>\<open>startRecord\<close> and \<^verbatim>\<open>writeBasic\<close> call \<^verbatim>\<open>d\<close>.\<close>

fun leading :: "Exchange \<Rightarrow> DNSMessage" where
  "leading (QueryOnly q) = q"
| "leading (ResponseOnly r) = r"
| "leading (QueryAndResponse q r) = q"

record AddressEvent =
  ae_type :: "8 word"
  ae_code :: "8 word"
  ae_address :: IPAddress

section \<open>Block data\<close>

text \<open>Modelled from the spec: \<^verbatim>\<open>PacketStatistics\<close>, declared outside
  \<^verbatim>\<open>blockcborwriter.cpp\<close>, is a set of cumulative counters (processed,
  queries, responses, malformed), which the writer only copies; a value-initialised one
  is all zero.\<close>

record PacketStatistics =
  processed_count :: "64 word"
  query_count :: "64 word"
  response_count :: "64 word"
  malformed_count :: "64 word"

definition zero_statistics :: PacketStatistics where
  "zero_statistics =
     \<lparr>processed_count = 0, query_count = 0, response_count = 0, malformed_count = 0\<rparr>"

record ClassType =
  qtype :: "16 word"
  qclass :: "16 word"

text \<open>\<^verbatim>\<open>QueryResponseSignature\<close>; its member \<^verbatim>\<open>qr_flags\<close> is
  \<open>qs_qr_flags\<close> here. The rcodes hold the twelve-bit extended value.\<close>

record QueryResponseSignature =
  server_address :: "nat option"
  server_port :: "16 word option"
  qr_transport_flags :: "8 word option"
  qr_type :: "8 word option"
  dns_flags :: "16 word option"
  qdcount :: "16 word option"
  query_classtype :: "nat option"
  query_opcode :: "8 word option"
  query_rcode :: "16 word option"
  query_ancount :: "16 word option"
  query_nscount :: "16 word option"
  query_arcount :: "16 word option"
  query_edns_payload_size :: "16 word option"
  query_edns_version :: "8 word option"
  query_opt_rdata :: "nat option"
  response_rcode :: "16 word option"
  qs_qr_flags :: "16 word option"

definition empty_signature :: QueryResponseSignature where
  "empty_signature =
     \<lparr>server_address = None, server_port = None, qr_transport_flags = None, qr_type = None,
      dns_flags = None, qdcount = None, query_classtype = None, query_opcode = None,
      query_rcode = None, query_ancount = None, query_nscount = None, query_arcount = None,
      query_edns_payload_size = None, query_edns_version = None, query_opt_rdata = None,
      response_rcode = None, qs_qr_flags = None\<rparr>"

text \<open>\<^verbatim>\<open>QueryResponseItem\<close>; its members \<^verbatim>\<open>id\<close> and
  \<^verbatim>\<open>hoplimit\<close> are \<open>transaction_id\<close> and \<open>client_hoplimit\<close> here. The
  extra-info groups are filled by the extended-group callbacks, which lie outside this
  development.\<close>

record QueryResponseItem =
  qr_flags :: "16 word"
  tstamp :: "time_point option"
  client_address :: "nat option"
  client_port :: "16 word option"
  transaction_id :: "16 word option"
  qname :: "nat option"
  signature :: "nat option"
  query_size :: "32 word option"
  response_size :: "32 word option"
  client_hoplimit :: "8 word option"
  response_delay :: "int option"

text \<open>\<^verbatim>\<open>QueryResponseItem::clear()\<close>: back to a freshly constructed item.\<close>

definition empty_item :: QueryResponseItem where
  "empty_item =
     \<lparr>qr_flags = 0, tstamp = None, client_address = None, client_port = None,
      transaction_id = None, qname = None, signature = None, query_size = None,
      response_size = None, client_hoplimit = None, response_delay = None\<rparr>"

text \<open>Modelled from the spec: the \<^verbatim>\<open>qr_flags\<close> bits of
  \<^verbatim>\<open>blockcbor.hpp\<close>, bit 0 to bit 5.\<close>

definition HAS_QUERY :: "16 word" where "HAS_QUERY = 1"
definition HAS_RESPONSE :: "16 word" where "HAS_RESPONSE = 2"
definition QUERY_HAS_OPT :: "16 word" where "QUERY_HAS_OPT = 4"
definition RESPONSE_HAS_OPT :: "16 word" where "RESPONSE_HAS_OPT = 8"
definition QUERY_HAS_NO_QUESTION :: "16 word" where "QUERY_HAS_NO_QUESTION = 16"
definition RESPONSE_HAS_NO_QUESTION :: "16 word" where "RESPONSE_HAS_NO_QUESTION = 32"

record AddressEventItem =
  aei_type :: "8 word"
  aei_code :: "8 word"
  aei_address :: nat
  aei_ipv6 :: bool

record BlockData =
  earliest_time :: time_point
  start_time :: "time_point option"
  end_time :: "time_point option"
  start_packet_statistics :: PacketStatistics
  last_packet_statistics :: PacketStatistics
  ip_addresses :: "byte_string list"
  class_types :: "ClassType list"
  names_rdatas :: "byte_string list"
  query_response_signatures :: "QueryResponseSignature list"
  query_response_items :: "QueryResponseItem list"
  address_event_counts :: "(AddressEventItem \<times> nat) list"

text \<open>Modelled from the spec: \<^verbatim>\<open>BlockData\<close> lives in
  \<^verbatim>\<open>blockcbordata.hpp\<close>, outside \<^verbatim>\<open>blockcborwriter.cpp\<close>. A block is created
  empty, \<^verbatim>\<open>clear()\<close> resets it in place, \<^verbatim>\<open>is_full()\<close> compares the
  number of items with the configured limit, and each table is an append-only intern table
  in insertion order: \<open>add\<close> returns the index of an equal entry or appends the value
  and returns the fresh index. Indices count from 0 here.\<close>

definition empty_block :: BlockData where
  "empty_block =
     \<lparr>earliest_time = 0, start_time = None, end_time = None,
      start_packet_statistics = zero_statistics, last_packet_statistics = zero_statistics,
      ip_addresses = [], class_types = [], names_rdatas = [],
      query_response_signatures = [], query_response_items = [],
      address_event_counts = []\<rparr>"

definition clear :: "BlockData \<Rightarrow> BlockData" where
  "clear d = empty_block"

definition is_full :: "Configuration \<Rightarrow> BlockData \<Rightarrow> bool" where
  "is_full cfg d = (length (query_response_items d) \<ge> max_block_items cfg)"

fun index_of :: "'a \<Rightarrow> 'a list \<Rightarrow> nat option" where
  "index_of v [] = None"
| "index_of v (x # xs) = (if v = x then Some 0 else map_option Suc (index_of v xs))"

definition intern :: "'a \<Rightarrow> 'a list \<Rightarrow> nat \<times> 'a list" where
  "intern v tbl = (case index_of v tbl of Some i \<Rightarrow> (i, tbl) | None \<Rightarrow> (length tbl, tbl @ [v]))"

definition add_address :: "byte_string \<Rightarrow> BlockData \<Rightarrow> nat \<times> BlockData" where
  "add_address a d = (let (i, t) = intern a (ip_addresses d) in (i, d\<lparr>ip_addresses := t\<rparr>))"

definition add_classtype :: "ClassType \<Rightarrow> BlockData \<Rightarrow> nat \<times> BlockData" where
  "add_classtype ct d = (let (i, t) = intern ct (class_types d) in (i, d\<lparr>class_types := t\<rparr>))"

definition add_name_rdata :: "byte_string \<Rightarrow> BlockData \<Rightarrow> nat \<times> BlockData" where
  "add_name_rdata n d = (let (i, t) = intern n (names_rdatas d) in (i, d\<lparr>names_rdatas := t\<rparr>))"

definition add_query_response_signature ::
    "QueryResponseSignature \<Rightarrow> BlockData \<Rightarrow> nat \<times> BlockData" where
  "add_query_response_signature s d =
     (let (i, t) = intern s (query_response_signatures d)
      in (i, d\<lparr>query_response_signatures := t\<rparr>))"

fun bump :: "'k \<Rightarrow> ('k \<times> nat) list \<Rightarrow> ('k \<times> nat) list" where
  "bump k [] = [(k, 1)]"
| "bump k ((k', n) # rest) = (if k = k' then (k', n + 1) # rest else (k', n) # bump k rest)"

definition count_address_event ::
    "8 word \<Rightarrow> 8 word \<Rightarrow> byte_string \<Rightarrow> bool \<Rightarrow> BlockData \<Rightarrow> BlockData" where
  "count_address_event ty code address ipv6 d =
     (let (i, d') = add_address address d
      in d'\<lparr>address_event_counts :=
             bump \<lparr>aei_type = ty, aei_code = code, aei_address = i, aei_ipv6 = ipv6\<rparr>
                  (address_event_counts d')\<rparr>)"

section \<open>The encoder\<close>

text \<open>The stream encoder belongs to \<^verbatim>\<open>cborencoder.hpp\<close>. The writer is
  modelled against the sequence of calls it makes on the encoder, in order, with the
  opening and closing of files among them. A block handed to
  \<^verbatim>\<open>BlockData::writeCbor\<close> is recorded as it is at that moment.\<close>

datatype FilePreambleField =
    major_format_version
  | minor_format_version
  | private_version
  | block_parameters

datatype enc_call =
    OpenFile
  | CloseFile
  | WriteArrayHeader nat
  | WriteArrayHeaderIndefinite
  | WriteMapHeader nat
  | WriteFileFormatId
  | WritePreambleIndex FilePreambleField
  | WriteMajorVersion
  | WriteMinorVersion
  | WritePrivateVersion
  | WriteBlockParameters
  | WriteBlock BlockData
  | WriteBreak

record Encoder =
  is_open :: bool
  calls :: "enc_call list"

definition enc_write :: "enc_call list \<Rightarrow> Encoder \<Rightarrow> Encoder" where
  "enc_write cs e = e\<lparr>calls := calls e @ cs\<rparr>"

definition enc_open :: "Encoder \<Rightarrow> Encoder" where
  "enc_open e = \<lparr>is_open = True, calls = calls e @ [OpenFile]\<rparr>"

definition enc_close :: "Encoder \<Rightarrow> Encoder" where
  "enc_close e = \<lparr>is_open = False, calls = calls e @ [CloseFile]\<rparr>"

section \<open>The writer\<close>

record BlockCborWriter =
  config :: Configuration
  enc :: Encoder
  live :: bool
  data :: BlockData
  query_response :: QueryResponseItem
  last_end_block_statistics :: PacketStatistics
  need_start_block_stats :: bool

text \<open>The constructor, lines 46-64; \<open>now\<close> is the reading of the system clock.\<close>

definition new_writer :: "Configuration \<Rightarrow> bool \<Rightarrow> time_point \<Rightarrow> BlockCborWriter" where
  "new_writer cfg is_live now =
     \<lparr>config = cfg,
      enc = \<lparr>is_open = False, calls = []\<rparr>,
      live = is_live,
      data = (if is_live then empty_block\<lparr>start_time := Some now\<rparr> else empty_block),
      query_response = empty_item,
      last_end_block_statistics = zero_statistics,
      need_start_block_stats = True\<rparr>"

text \<open>\<^verbatim>\<open>writeBlock\<close>, lines 392-398.\<close>

definition writeBlock :: "BlockCborWriter \<Rightarrow> BlockCborWriter" where
  "writeBlock w =
     (let d = (data w)\<lparr>last_packet_statistics := last_end_block_statistics w\<rparr>
      in w\<lparr>enc := enc_write [WriteBlock d] (enc w),
            data := clear d,
            need_start_block_stats := True\<rparr>)"

text \<open>\<^verbatim>\<open>updateBlockStats\<close>, lines 400-408.\<close>

definition updateBlockStats :: "PacketStatistics \<Rightarrow> BlockCborWriter \<Rightarrow> BlockCborWriter" where
  "updateBlockStats stats w =
     (let w1 = (if need_start_block_stats w
                then w\<lparr>data := (data w)\<lparr>start_packet_statistics := last_end_block_statistics w\<rparr>,
                       need_start_block_stats := False\<rparr>
                else w)
      in w1\<lparr>last_end_block_statistics := stats\<rparr>)"

text \<open>\<^verbatim>\<open>writeFileFooter\<close>, lines 387-390.\<close>

definition writeFileFooter :: "BlockCborWriter \<Rightarrow> BlockCborWriter" where
  "writeFileFooter w = w\<lparr>enc := enc_write [WriteBreak] (enc w)\<rparr>"

text \<open>\<^verbatim>\<open>writeBlockParameters\<close> and \<^verbatim>\<open>writeFileHeader\<close>, lines 350-385.\<close>

definition writeBlockParameters :: "BlockCborWriter \<Rightarrow> BlockCborWriter" where
  "writeBlockParameters w =
     w\<lparr>enc := enc_write [WriteArrayHeader 1, WriteBlockParameters] (enc w)\<rparr>"

definition writeFileHeader :: "BlockCborWriter \<Rightarrow> BlockCborWriter" where
  "writeFileHeader w =
     (let w1 = w\<lparr>enc := enc_write
                  [WriteArrayHeader 3, WriteFileFormatId,
                   WriteMapHeader 4,
                   WritePreambleIndex major_format_version, WriteMajorVersion,
                   WritePreambleIndex minor_format_version, WriteMinorVersion,
                   WritePreambleIndex private_version, WritePrivateVersion,
                   WritePreambleIndex block_parameters] (enc w)\<rparr>;
          w2 = writeBlockParameters w1
      in w2\<lparr>enc := enc_write [WriteArrayHeaderIndefinite] (enc w2)\<rparr>)"

text \<open>\<^verbatim>\<open>close\<close>, lines 71-81.\<close>

definition close :: "time_point \<Rightarrow> BlockCborWriter \<Rightarrow> BlockCborWriter" where
  "close now w =
     (if is_open (enc w)
      then (let w1 = (if live w \<and> end_time (data w) = None
                      then w\<lparr>data := (data w)\<lparr>end_time := Some now\<rparr>\<rparr>
                      else w);
                w2 = writeBlock w1;
                w3 = writeFileFooter w2
            in w3\<lparr>enc := enc_close (enc w3)\<rparr>)
      else w)"

text \<open>\<^verbatim>\<open>checkForRotation\<close>, lines 94-112. The flag \<open>due\<close> is the value of
  the size test and of \<^verbatim>\<open>output_pattern_.need_rotate\<close>, both decided outside
  this file; the file name plays no part in what is written.\<close>

definition checkForRotation ::
    "time_point \<Rightarrow> bool \<Rightarrow> time_point \<Rightarrow> BlockCborWriter \<Rightarrow> BlockCborWriter" where
  "checkForRotation ts due now w =
     (if \<not> is_open (enc w) \<or> due
      then (let w1 = (if is_open (enc w)
                      then (let wa = w\<lparr>data := (data w)\<lparr>end_time := Some ts\<rparr>\<rparr>;
                                wb = close now wa
                            in wb\<lparr>data := (data wb)\<lparr>start_time := Some ts\<rparr>\<rparr>)
                      else w)
            in writeFileHeader (w1\<lparr>enc := enc_open (enc w1)\<rparr>))
      else w)"

text \<open>\<^verbatim>\<open>startRecord\<close>, lines 114-125, and \<^verbatim>\<open>endRecord\<close>, lines 127-131.\<close>

definition startRecord :: "QueryResponse \<Rightarrow> BlockCborWriter \<Rightarrow> BlockCborWriter" where
  "startRecord qr w =
     (let w1 = (if is_full (config w) (data w)
                then (let d = leading (exchange qr);
                          wa = w\<lparr>data := (data w)\<lparr>end_time := Some (timestamp d)\<rparr>\<rparr>;
                          wb = writeBlock wa
                      in wb\<lparr>data := (data wb)\<lparr>start_time := Some (timestamp d)\<rparr>\<rparr>)
                else w)
      in w1\<lparr>query_response := empty_item\<rparr>)"

definition endRecord :: "BlockCborWriter \<Rightarrow> BlockCborWriter" where
  "endRecord w =
     w\<lparr>data := (data w)\<lparr>query_response_items :=
                            query_response_items (data w) @ [query_response w]\<rparr>,
       query_response := empty_item\<rparr>"

text \<open>\<^verbatim>\<open>writeAE\<close>, lines 83-92.\<close>

definition writeAE :: "AddressEvent \<Rightarrow> PacketStatistics \<Rightarrow> BlockCborWriter \<Rightarrow> BlockCborWriter" where
  "writeAE ae stats w =
     (let w1 = (if \<not> exclude_address_events (exclude_hints (config w))
                then w\<lparr>data := count_address_event (ae_type ae) (ae_code ae)
                                  (addr_to_string (ae_address ae) (config w) True)
                                  (is_ipv6 (ae_address ae)) (data w)\<rparr>
                else w)
      in updateBlockStats stats w1)"

section \<open>writeBasic\<close>

text \<open>The locals of \<^verbatim>\<open>writeBasic\<close>: the item in progress
  \<^verbatim>\<open>qri\<close>, the signature \<^verbatim>\<open>qs\<close>, and the block they are interned in.
  The body is cut into its paragraphs, each a function on these locals.\<close>

record basic_state =
  qri :: QueryResponseItem
  qs :: QueryResponseSignature
  blk :: BlockData

text \<open>Lines 145-155: the time bounds of the block.\<close>

definition basic_times :: "Configuration \<Rightarrow> DNSMessage \<Rightarrow> BlockData \<Rightarrow> BlockData" where
  "basic_times cfg d b =
     (let b1 = (if length (query_response_items b) = 0 \<or> timestamp d < earliest_time b
                then b\<lparr>earliest_time := timestamp d\<rparr> else b)
      in if start_end_times_from_data cfg
         then (let b2 = (if (case end_time b1 of None \<Rightarrow> True | Some e \<Rightarrow> timestamp d > e)
                         then b1\<lparr>end_time := Some (timestamp d)\<rparr> else b1);
                   b3 = (if (case start_time b2 of None \<Rightarrow> True | Some s \<Rightarrow> timestamp d < s)
                         then b2\<lparr>start_time := Some (timestamp d)\<rparr> else b2)
               in b3)
         else b1)"

text \<open>Lines 157-167: basic query signature info.\<close>

definition basic_signature_info ::
    "Configuration \<Rightarrow> QueryResponse \<Rightarrow> DNSMessage \<Rightarrow> basic_state \<Rightarrow> basic_state" where
  "basic_signature_info cfg qr d st =
     (let exclude = exclude_hints cfg;
          st1 = (case serverIP d of
                   Some a \<Rightarrow>
                     if \<not> exclude_server_address exclude
                     then (let (i, b) = add_address (addr_to_string a cfg False) (blk st)
                           in st\<lparr>qs := (qs st)\<lparr>server_address := Some i\<rparr>, blk := b\<rparr>)
                     else st
                 | None \<Rightarrow> st);
          st2 = (if \<not> exclude_server_port exclude \<and> serverPort d \<noteq> None
                 then st1\<lparr>qs := (qs st1)\<lparr>server_port := serverPort d\<rparr>\<rparr> else st1);
          st3 = (if \<not> exclude_transport exclude
                 then st2\<lparr>qs := (qs st2)\<lparr>qr_transport_flags := Some (cbor_transport_flags qr)\<rparr>\<rparr>
                 else st2);
          st4 = (if \<not> exclude_transaction_type exclude
                 then st3\<lparr>qs := (qs st3)\<lparr>qr_type := Some (cbor_transaction_type qr)\<rparr>\<rparr>
                 else st3);
          st5 = (if \<not> exclude_dns_flags exclude
                 then st4\<lparr>qs := (qs st4)\<lparr>dns_flags := Some (cbor_dns_flags qr)\<rparr>\<rparr>
                 else st4)
      in st5)"

text \<open>Lines 169-179: basic query/response info.\<close>

definition basic_item_info :: "Configuration \<Rightarrow> DNSMessage \<Rightarrow> basic_state \<Rightarrow> basic_state" where
  "basic_item_info cfg d st =
     (let exclude = exclude_hints cfg;
          st1 = (if \<not> exclude_timestamp exclude
                 then st\<lparr>qri := (qri st)\<lparr>tstamp := Some (timestamp d)\<rparr>\<rparr> else st);
          st2 = (case clientIP d of
                   Some a \<Rightarrow>
                     if \<not> exclude_client_address exclude
                     then (let (i, b) = add_address (addr_to_string a cfg True) (blk st1)
                           in st1\<lparr>qri := (qri st1)\<lparr>client_address := Some i\<rparr>, blk := b\<rparr>)
                     else st1
                 | None \<Rightarrow> st1);
          st3 = (if \<not> exclude_client_port exclude \<and> clientPort d \<noteq> None
                 then st2\<lparr>qri := (qri st2)\<lparr>client_port := clientPort d\<rparr>\<rparr> else st2);
          st4 = (if \<not> exclude_transaction_id exclude
                 then st3\<lparr>qri := (qri st3)\<lparr>transaction_id := Some (dns_id (dns d))\<rparr>\<rparr>
                 else st3);
          st5 = (if \<not> exclude_query_qdcount exclude
                 then st4\<lparr>qs := (qs st4)\<lparr>qdcount := Some (questions_count (dns d))\<rparr>\<rparr>
                 else st4)
      in st5)"

text \<open>Lines 181-195: the first question of the leading message.\<close>

definition basic_first_question :: "Configuration \<Rightarrow> DNSMessage \<Rightarrow> basic_state \<Rightarrow> basic_state" where
  "basic_first_question cfg d st =
     (let exclude = exclude_hints cfg
      in case queries (dns d) of
           [] \<Rightarrow> st\<lparr>qri := (qri st)\<lparr>qr_flags := qr_flags (qri st) OR QUERY_HAS_NO_QUESTION\<rparr>\<rparr>
         | query # rest \<Rightarrow>
             (let ct = \<lparr>qtype = query_type query, qclass = query_class query\<rparr>;
                  st1 = (if \<not> exclude_query_class_type exclude
                         then (let (i, b) = add_classtype ct (blk st)
                               in st\<lparr>qs := (qs st)\<lparr>query_classtype := Some i\<rparr>, blk := b\<rparr>)
                         else st);
                  st2 = (if \<not> exclude_query_name exclude
                         then (let (i, b) = add_name_rdata (dname query) (blk st1)
                               in st1\<lparr>qri := (qri st1)\<lparr>qname := Some i\<rparr>, blk := b\<rparr>)
                         else st1)
              in st2))"

text \<open>The addition of the shifted extended rcode, lines 222 and 250: the stored rcode and
  the \<^verbatim>\<open>uint8_t\<close> extended rcode are promoted to \<^verbatim>\<open>int\<close>, added, and
  converted back to \<^verbatim>\<open>CaptureDNS::Rcode\<close>.\<close>

definition add_extended_rcode :: "16 word \<Rightarrow> 8 word \<Rightarrow> 16 word" where
  "add_extended_rcode rc ext =
     ucast ((ucast rc :: 32 word) + push_bit 4 (ucast ext :: 32 word))"

text \<open>Lines 197-231: the query, in three paragraphs: flags and sizes (lines 201-205),
  opcode, rcode and section counts (lines 207-216), and the OPT record (lines 218-230). The
  dereference \<^verbatim>\<open>*qs.query_rcode\<close> of line 222 is guarded by the same hint as the
  assignment of line 210, so the optional holds a value there.\<close>

definition basic_query_sizes :: "Configuration \<Rightarrow> DNSMessage \<Rightarrow> basic_state \<Rightarrow> basic_state" where
  "basic_query_sizes cfg q st =
     (let exclude = exclude_hints cfg;
          st1 = st\<lparr>qri := (qri st)\<lparr>qr_flags := qr_flags (qri st) OR HAS_QUERY\<rparr>\<rparr>;
          st2 = (if \<not> exclude_query_size exclude \<and> wire_size q \<noteq> None
                 then st1\<lparr>qri := (qri st1)\<lparr>query_size := wire_size q\<rparr>\<rparr> else st1);
          st3 = (if \<not> exclude_client_hoplimit exclude \<and> hoplimit q \<noteq> None
                 then st2\<lparr>qri := (qri st2)\<lparr>client_hoplimit := hoplimit q\<rparr>\<rparr> else st2)
      in st3)"

definition basic_query_counts :: "Configuration \<Rightarrow> DNSMessage \<Rightarrow> basic_state \<Rightarrow> basic_state" where
  "basic_query_counts cfg q st =
     (let exclude = exclude_hints cfg;
          st4 = (if \<not> exclude_query_opcode exclude
                 then st\<lparr>qs := (qs st)\<lparr>query_opcode := Some (opcode (dns q))\<rparr>\<rparr> else st);
          st5 = (if \<not> exclude_query_rcode exclude
                 then st4\<lparr>qs := (qs st4)\<lparr>query_rcode := Some (ucast (rcode (dns q)))\<rparr>\<rparr>
                 else st4);
          st6 = (if \<not> exclude_query_ancount exclude
                 then st5\<lparr>qs := (qs st5)\<lparr>query_ancount := Some (answers_count (dns q))\<rparr>\<rparr>
                 else st5);
          st7 = (if \<not> exclude_query_arcount exclude
                 then st6\<lparr>qs := (qs st6)\<lparr>query_nscount := Some (authority_count (dns q))\<rparr>\<rparr>
                 else st6);
          st8 = (if \<not> exclude_query_nscount exclude
                 then st7\<lparr>qs := (qs st7)\<lparr>query_arcount := Some (additional_count (dns q))\<rparr>\<rparr>
                 else st7)
      in st8)"

definition basic_query_edns :: "Configuration \<Rightarrow> EDNS0 \<Rightarrow> basic_state \<Rightarrow> basic_state" where
  "basic_query_edns cfg e st =
     (let exclude = exclude_hints cfg;
          s1 = (if \<not> exclude_query_rcode exclude
                then st\<lparr>qs := (qs st)\<lparr>query_rcode :=
                       map_option (\<lambda>rc. add_extended_rcode rc (extended_rcode e))
                                  (query_rcode (qs st))\<rparr>\<rparr>
                else st);
          s2 = s1\<lparr>qri := (qri s1)\<lparr>qr_flags := qr_flags (qri s1) OR QUERY_HAS_OPT\<rparr>\<rparr>;
          s3 = (if \<not> exclude_query_udp_size exclude
                then s2\<lparr>qs := (qs s2)\<lparr>query_edns_payload_size := Some (udp_payload_size e)\<rparr>\<rparr>
                else s2);
          s4 = (if \<not> exclude_query_edns_version exclude
                then s3\<lparr>qs := (qs s3)\<lparr>query_edns_version := Some (edns_version e)\<rparr>\<rparr>
                else s3);
          s5 = (if \<not> exclude_query_opt_rdata exclude
                then (let (i, b) = add_name_rdata (rr_data e) (blk s4)
                      in s4\<lparr>qs := (qs s4)\<lparr>query_opt_rdata := Some i\<rparr>, blk := b\<rparr>)
                else s4)
      in s5)"

definition basic_query_info :: "Configuration \<Rightarrow> DNSMessage \<Rightarrow> basic_state \<Rightarrow> basic_state" where
  "basic_query_info cfg q st =
     (let st3 = basic_query_sizes cfg q st;
          st8 = basic_query_counts cfg q st3
      in case edns0 (dns q) of
           None \<Rightarrow> st8
         | Some e \<Rightarrow> basic_query_edns cfg e st8)"

text \<open>Lines 233-256: the response, likewise: flags, size, opcode and rcode (lines
  237-244), the OPT record (lines 246-252), and the empty question section (lines
  254-255).\<close>

definition basic_response_header :: "Configuration \<Rightarrow> DNSMessage \<Rightarrow> basic_state \<Rightarrow> basic_state" where
  "basic_response_header cfg r st =
     (let exclude = exclude_hints cfg;
          st1 = st\<lparr>qri := (qri st)\<lparr>qr_flags := qr_flags (qri st) OR HAS_RESPONSE\<rparr>\<rparr>;
          st2 = (if \<not> exclude_response_size exclude \<and> wire_size r \<noteq> None
                 then st1\<lparr>qri := (qri st1)\<lparr>response_size := wire_size r\<rparr>\<rparr> else st1);
          st3 = (if \<not> exclude_query_opcode exclude \<and> query_opcode (qs st2) = None
                 then st2\<lparr>qs := (qs st2)\<lparr>query_opcode := Some (opcode (dns r))\<rparr>\<rparr> else st2);
          st4 = (if \<not> exclude_response_rcode exclude
                 then st3\<lparr>qs := (qs st3)\<lparr>response_rcode := Some (ucast (rcode (dns r)))\<rparr>\<rparr>
                 else st3)
      in st4)"

definition basic_response_edns :: "Configuration \<Rightarrow> EDNS0 \<Rightarrow> basic_state \<Rightarrow> basic_state" where
  "basic_response_edns cfg e st =
     (let s1 = (if \<not> exclude_response_rcode (exclude_hints cfg)
                then st\<lparr>qs := (qs st)\<lparr>response_rcode :=
                       map_option (\<lambda>rc. add_extended_rcode rc (extended_rcode e))
                                  (response_rcode (qs st))\<rparr>\<rparr>
                else st)
      in s1\<lparr>qri := (qri s1)\<lparr>qr_flags := qr_flags (qri s1) OR RESPONSE_HAS_OPT\<rparr>\<rparr>)"

definition basic_response_info :: "Configuration \<Rightarrow> DNSMessage \<Rightarrow> basic_state \<Rightarrow> basic_state" where
  "basic_response_info cfg r st =
     (let st4 = basic_response_header cfg r st;
          st5 = (case edns0 (dns r) of
                   None \<Rightarrow> st4
                 | Some e \<Rightarrow> basic_response_edns cfg e st4)
      in if questions_count (dns r) = 0
         then st5\<lparr>qri := (qri st5)\<lparr>qr_flags :=
                      qr_flags (qri st5) OR RESPONSE_HAS_NO_QUESTION\<rparr>\<rparr>
         else st5)"

text \<open>Lines 258-259: the response delay. The two time points are counts of 64-bit
  signed clock ticks, and their difference is taken in that type: the subtraction wraps
  around at 64 bits.\<close>

definition tick_difference :: "time_point \<Rightarrow> time_point \<Rightarrow> int" where
  "tick_difference a b = sint (word_of_int (a - b) :: 64 word)"

definition basic_delay :: "Configuration \<Rightarrow> QueryResponse \<Rightarrow> basic_state \<Rightarrow> basic_state" where
  "basic_delay cfg qr st =
     (case exchange qr of
        QueryAndResponse q r \<Rightarrow>
          if \<not> exclude_response_delay (exclude_hints cfg)
          then st\<lparr>qri := (qri st)\<lparr>response_delay :=
                     Some (tick_difference (timestamp r) (timestamp q))\<rparr>\<rparr>
          else st
      | _ \<Rightarrow> st)"

text \<open>Lines 261-262 and lines 263-264.\<close>

definition basic_flags :: "Configuration \<Rightarrow> basic_state \<Rightarrow> basic_state" where
  "basic_flags cfg st =
     (if \<not> exclude_qr_flags (exclude_hints cfg)
      then st\<lparr>qs := (qs st)\<lparr>qs_qr_flags := Some (qr_flags (qri st))\<rparr>\<rparr> else st)"

definition basic_intern :: "Configuration \<Rightarrow> basic_state \<Rightarrow> basic_state" where
  "basic_intern cfg st =
     (if \<not> exclude_qr_signature (exclude_hints cfg)
      then (let (i, b) = add_query_response_signature (qs st) (blk st)
            in st\<lparr>qri := (qri st)\<lparr>signature := Some i\<rparr>, blk := b\<rparr>)
      else st)"

text \<open>The locals of \<^verbatim>\<open>writeBasic\<close> when line 262 has run: every paragraph in
  the order of the source, after \<^verbatim>\<open>qri.qr_flags = 0\<close> and
  \<^verbatim>\<open>updateBlockStats(stats)\<close>.\<close>

definition basic_locals :: "QueryResponse \<Rightarrow> BlockCborWriter \<Rightarrow> basic_state" where
  "basic_locals qr w =
     (let cfg = config w;
          d = leading (exchange qr);
          st0 = \<lparr>qri = (query_response w)\<lparr>qr_flags := 0\<rparr>, qs = empty_signature,
                 blk = basic_times cfg d (data w)\<rparr>;
          st1 = basic_signature_info cfg qr d st0;
          st2 = basic_item_info cfg d st1;
          st3 = basic_first_question cfg d st2;
          st4 = (case query_of (exchange qr) of
                   Some q \<Rightarrow> basic_query_info cfg q st3 | None \<Rightarrow> st3);
          st5 = (case response_of (exchange qr) of
                   Some r \<Rightarrow> basic_response_info cfg r st4 | None \<Rightarrow> st4);
          st6 = basic_delay cfg qr st5
      in basic_flags cfg st6)"

text \<open>\<^verbatim>\<open>writeBasic\<close>, lines 133-265.\<close>

definition writeBasic :: "QueryResponse \<Rightarrow> PacketStatistics \<Rightarrow> BlockCborWriter \<Rightarrow> BlockCborWriter" where
  "writeBasic qr stats w =
     (let w1 = updateBlockStats stats w;
          st = basic_intern (config w1) (basic_locals qr w1)
      in w1\<lparr>query_response := qri st, data := blk st\<rparr>)"

text \<open>The signature \<^verbatim>\<open>qs\<close> that \<^verbatim>\<open>writeBasic\<close> has built when it
  interns it.\<close>

definition writeBasic_signature ::
    "QueryResponse \<Rightarrow> PacketStatistics \<Rightarrow> BlockCborWriter \<Rightarrow> QueryResponseSignature" where
  "writeBasic_signature qr stats w = qs (basic_locals qr (updateBlockStats stats w))"

section \<open>Runs of the writer\<close>

text \<open>Upstream drives the writer one transaction at a time:
  \<^verbatim>\<open>startRecord\<close>, \<^verbatim>\<open>writeBasic\<close>, \<^verbatim>\<open>endRecord\<close>.\<close>

definition write_record :: "QueryResponse \<Rightarrow> PacketStatistics \<Rightarrow> BlockCborWriter \<Rightarrow> BlockCborWriter" where
  "write_record qr stats w = endRecord (writeBasic qr stats (startRecord qr w))"

text \<open>A sequence of transactions written one after the other, and their leading
  timestamps.\<close>

fun write_records ::
    "(QueryResponse \<times> PacketStatistics) list \<Rightarrow> BlockCborWriter \<Rightarrow> BlockCborWriter" where
  "write_records [] w = w"
| "write_records ((qr, stats) # rs) w = write_records rs (write_record qr stats w)"


datatype writer_op =
    Record QueryResponse PacketStatistics
  | Event AddressEvent PacketStatistics
  | Rotation time_point bool time_point
  | Close time_point

fun step :: "BlockCborWriter \<Rightarrow> writer_op \<Rightarrow> BlockCborWriter" where
  "step w (Record qr stats) = write_record qr stats w"
| "step w (Event ae stats) = writeAE ae stats w"
| "step w (Rotation ts due now) = checkForRotation ts due now w"
| "step w (Close now) = close now w"

definition run :: "writer_op list \<Rightarrow> BlockCborWriter \<Rightarrow> BlockCborWriter" where
  "run ops w = foldl step w ops"

text \<open>The blocks handed to the encoder so far, in order.\<close>

fun blocks_of :: "enc_call list \<Rightarrow> BlockData list" where
  "blocks_of [] = []"
| "blocks_of (WriteBlock b # cs) = b # blocks_of cs"
| "blocks_of (c # cs) = blocks_of cs"

definition flushed_blocks :: "BlockCborWriter \<Rightarrow> BlockData list" where
  "flushed_blocks w = blocks_of (calls (enc w))"

text \<open>The calls of \<^verbatim>\<open>writeFileHeader\<close>, in order.\<close>

definition file_header :: "enc_call list" where
  "file_header =
     [WriteArrayHeader 3, WriteFileFormatId, WriteMapHeader 4,
      WritePreambleIndex major_format_version, WriteMajorVersion,
      WritePreambleIndex minor_format_version, WriteMinorVersion,
      WritePreambleIndex private_version, WritePrivateVersion,
      WritePreambleIndex block_parameters,
      WriteArrayHeader 1, WriteBlockParameters,
      WriteArrayHeaderIndefinite]"

text \<open>The block that \<^verbatim>\<open>close\<close> hands to the encoder.\<close>

definition closing_block :: "time_point \<Rightarrow> BlockCborWriter \<Rightarrow> BlockData" where
  "closing_block now w =
     (data w)\<lparr>end_time := (if live w \<and> end_time (data w) = None then Some now
                            else end_time (data w)),
              last_packet_statistics := last_end_block_statistics w\<rparr>"

text \<open>The array of blocks of the first file among the encoder calls: from the
  indefinite-length array header that ends the file header up to the closing of the
  file.\<close>

definition file_blocks :: "enc_call list \<Rightarrow> enc_call list" where
  "file_blocks cs =
     takeWhile (\<lambda>c. c \<noteq> CloseFile) (dropWhile (\<lambda>c. c \<noteq> WriteArrayHeaderIndefinite) cs)"

text \<open>Modelled from the spec: the bytes of the calls that make up the array of blocks.
  The indefinite-length array header is the byte \<^verbatim>\<open>0x9f\<close> and the break is
  \<^verbatim>\<open>0xff\<close>; the bytes of a block are what \<^verbatim>\<open>BlockData::writeCbor\<close>
  emits for it, a function \<open>wc\<close> that is left open here, since the serializer of
  \<^verbatim>\<open>blockcbordata.hpp\<close> lies outside this file. The calls of the file header
  do not occur in the array of blocks.\<close>

fun call_bytes :: "(BlockData \<Rightarrow> byte_string) \<Rightarrow> enc_call \<Rightarrow> byte_string" where
  "call_bytes wc WriteArrayHeaderIndefinite = [0x9f]"
| "call_bytes wc WriteBreak = [0xff]"
| "call_bytes wc (WriteBlock b) = wc b"
| "call_bytes wc c = []"

definition blocks_bytes :: "(BlockData \<Rightarrow> byte_string) \<Rightarrow> enc_call list \<Rightarrow> byte_string" where
  "blocks_bytes wc cs = concat (map (call_bytes wc) (file_blocks cs))"

section \<open>Invariants of a run\<close>

text \<open>A block has content when it holds a record or an address event.\<close>

definition has_content :: "BlockData \<Rightarrow> bool" where
  "has_content b = (query_response_items b \<noteq> [] \<or> address_event_counts b \<noteq> [])"

text \<open>The statistics window over a sequence of blocks: each block with content starts at
  the counters its predecessor ended with.\<close>

definition windowed :: "BlockData list \<Rightarrow> bool" where
  "windowed bs =
     (\<forall>i. Suc i < length bs \<and> has_content (bs ! Suc i) \<longrightarrow>
          start_packet_statistics (bs ! Suc i) = last_packet_statistics (bs ! i))"

text \<open>What a writer maintains between two flushes: the blocks flushed so far are
  windowed; a block with content has had its starting counters set; and the counters the
  last flushed block ended with are either still in
  \<^verbatim>\<open>last_end_block_statistics_\<close>, waiting for the next update, or already in the
  starting counters of the block in progress.\<close>

definition window_inv :: "BlockCborWriter \<Rightarrow> bool" where
  "window_inv w =
     (windowed (flushed_blocks w)
      \<and> (has_content (data w) \<longrightarrow> \<not> need_start_block_stats w)
      \<and> (flushed_blocks w \<noteq> [] \<longrightarrow>
           (if need_start_block_stats w
            then last_end_block_statistics w = last_packet_statistics (last (flushed_blocks w))
            else start_packet_statistics (data w) =
                   last_packet_statistics (last (flushed_blocks w)))))"

text \<open>What a writer maintains about its first block: until a block is flushed, the
  starting counters of the block in progress are zero, and so is the snapshot that the
  first update will copy; afterwards the first flushed block starts at zero.\<close>

definition first_inv :: "BlockCborWriter \<Rightarrow> bool" where
  "first_inv w =
     ((flushed_blocks w = [] \<longrightarrow>
         start_packet_statistics (data w) = zero_statistics
         \<and> (need_start_block_stats w \<longrightarrow> last_end_block_statistics w = zero_statistics))
      \<and> (flushed_blocks w \<noteq> [] \<longrightarrow>
           start_packet_statistics (hd (flushed_blocks w)) = zero_statistics))"

section \<open>Sample inputs\<close>

definition no_exclusions :: HintsExcluded where
  "no_exclusions =
     \<lparr>exclude_timestamp = False, exclude_client_address = False, exclude_client_port = False,
      exclude_client_hoplimit = False, exclude_server_address = False,
      exclude_server_port = False, exclude_transport = False, exclude_transaction_id = False,
      exclude_qr_flags = False, exclude_transaction_type = False, exclude_qr_signature = False,
      exclude_dns_flags = False, exclude_query_qdcount = False,
      exclude_query_class_type = False, exclude_query_name = False, exclude_query_size = False,
      exclude_query_opcode = False, exclude_query_rcode = False, exclude_query_ancount = False,
      exclude_query_arcount = False, exclude_query_nscount = False,
      exclude_query_udp_size = False, exclude_query_edns_version = False,
      exclude_query_opt_rdata = False, exclude_response_size = False,
      exclude_response_rcode = False, exclude_response_delay = False,
      exclude_address_events = False\<rparr>"

definition sample_config :: Configuration where
  "sample_config =
     \<lparr>client_address_prefix_ipv4 = 20, client_address_prefix_ipv6 = 48,
      server_address_prefix_ipv4 = 32, server_address_prefix_ipv6 = 128,
      max_block_items = 2, start_end_times_from_data = True,
      exclude_hints = no_exclusions\<rparr>"

definition sample_client :: IPAddress where
  "sample_client = \<lparr>is_ipv6 = False, asNetworkBinary = [198, 51, 100, 77]\<rparr>"

definition sample_server :: IPAddress where
  "sample_server = \<lparr>is_ipv6 = False, asNetworkBinary = [192, 0, 2, 1]\<rparr>"

definition sample_server_v6 :: IPAddress where
  "sample_server_v6 =
     \<lparr>is_ipv6 = True,
      asNetworkBinary = [32, 1, 13, 184, 0, 0, 0, 0, 0, 0, 0, 0, 0, 0, 0, 83]\<rparr>"

text \<open>A configuration with four different prefix lengths.\<close>

definition short_v6_config :: Configuration where
  "short_v6_config =
     \<lparr>client_address_prefix_ipv4 = 20, client_address_prefix_ipv6 = 48,
      server_address_prefix_ipv4 = 32, server_address_prefix_ipv6 = 12,
      max_block_items = 2, start_end_times_from_data = True,
      exclude_hints = no_exclusions\<rparr>"

definition sample_question :: Question where
  "sample_question =
     \<lparr>dname = [7, 101, 120, 97, 109, 112, 108, 101, 3, 99, 111, 109, 0],
      query_type = 1, query_class = 1\<rparr>"

definition sample_opt :: EDNS0 where
  "sample_opt =
     \<lparr>extended_rcode = 1, udp_payload_size = 4096, edns_version = 0, rr_data = []\<rparr>"

definition sample_query :: DNSMessage where
  "sample_query =
     \<lparr>timestamp = 1000, clientIP = Some sample_client, serverIP = Some sample_server,
      clientPort = Some 40000, serverPort = Some 53, hoplimit = Some 64,
      wire_size = Some 40,
      dns = \<lparr>dns_id = 4660, opcode = 0, rcode = 0, questions_count = 1, answers_count = 0,
             authority_count = 2, additional_count = 1, queries = [sample_question],
             edns0 = Some sample_opt\<rparr>\<rparr>"

definition sample_response :: DNSMessage where
  "sample_response =
     \<lparr>timestamp = 6000, clientIP = Some sample_client, serverIP = Some sample_server,
      clientPort = Some 40000, serverPort = Some 53, hoplimit = Some 57,
      wire_size = Some 56,
      dns = \<lparr>dns_id = 4660, opcode = 5, rcode = 7, questions_count = 1, answers_count = 1,
             authority_count = 0, additional_count = 1, queries = [sample_question],
             edns0 = Some sample_opt\<rparr>\<rparr>"

definition sample_transaction :: QueryResponse where
  "sample_transaction =
     \<lparr>exchange = QueryAndResponse sample_query sample_response,
      cbor_transport_flags = 0, cbor_transaction_type = 0, cbor_dns_flags = 0\<rparr>"

definition sample_query_only :: QueryResponse where
  "sample_query_only =
     \<lparr>exchange = QueryOnly sample_query,
      cbor_transport_flags = 0, cbor_transaction_type = 0, cbor_dns_flags = 0\<rparr>"

definition sample_response_only :: QueryResponse where
  "sample_response_only =
     \<lparr>exchange = ResponseOnly sample_response,
      cbor_transport_flags = 0, cbor_transaction_type = 0, cbor_dns_flags = 0\<rparr>"

definition sample_statistics :: PacketStatistics where
  "sample_statistics =
     \<lparr>processed_count = 10, query_count = 6, response_count = 4, malformed_count = 0\<rparr>"

definition later_statistics :: PacketStatistics where
  "later_statistics =
     \<lparr>processed_count = 25, query_count = 14, response_count = 11, malformed_count = 0\<rparr>"

text \<open>The sample configuration with the \<^verbatim>\<open>query_arcount\<close> hint set and every other
  hint clear.\<close>

definition arcount_excluded_config :: Configuration where
  "arcount_excluded_config =
     sample_config\<lparr>exclude_hints := no_exclusions\<lparr>exclude_query_arcount := True\<rparr>\<rparr>"

text \<open>A run over one file: three records into blocks of two items, then the end of the
  capture.\<close>

definition sample_run :: "writer_op list" where
  "sample_run =
     [Rotation 0 False 0,
      Record sample_query_only sample_statistics,
      Record sample_transaction sample_statistics,
      Record sample_response_only later_statistics,
      Close 9]"

text \<open>A run in which the file is rotated after one record and the capture ends before
  another record arrives.\<close>

definition rotated_run :: "writer_op list" where
  "rotated_run =
     [Rotation 0 False 0,
      Record sample_query_only sample_statistics,
      Rotation 5 True 5,
      Close 9]"

text \<open>A run under a configuration that excludes address events: the file is rotated
  after one record, and an address event arrives before the capture ends.\<close>

definition events_excluded_config :: Configuration where
  "events_excluded_config =
     sample_config\<lparr>exclude_hints := no_exclusions\<lparr>exclude_address_events := True\<rparr>\<rparr>"

definition sample_event :: AddressEvent where
  "sample_event = \<lparr>ae_type = 1, ae_code = 0, ae_address = sample_client\<rparr>"

definition event_run :: "writer_op list" where
  "event_run =
     [Rotation 0 False 0,
      Record sample_query_only sample_statistics,
      Rotation 5 True 5,
      Event sample_event later_statistics]"

section \<open>Properties\<close>

subsection \<open>Address masking\<close>

lemma mask_byte_bit:
  "bit (ucast (push_bit k (0xff :: 32 word)) :: 8 word) j \<longleftrightarrow> k \<le> j \<and> j < 8"
proof -
  have h: "(0xff :: 32 word) = mask 8" by (simp add: mask_eq_exp_minus_1)
  have "bit (ucast (push_bit k (mask 8 :: 32 word)) :: 8 word) j \<longleftrightarrow> k \<le> j \<and> j < 8"
    by (auto simp add: bit_simps)
  then show ?thesis by (simp only: h)
qed

lemma prefix_nbytes_unat:
  assumes "unat p \<le> 2 ^ 32 - 8"
  shows "unat ((p + 7) div 8 :: 32 word) = (unat p + 7) div 8"
proof -
  have "unat (p + 7) = unat p + 7"
    using assms by (simp add: unat_word_ariths)
  then show ?thesis by (simp add: unat_div)
qed

lemma slack_unat:
  assumes "unat p \<le> 2 ^ 32 - 8"
  shows "unat (((p + 7) div 8) * 8 - p :: 32 word) = 8 * ((unat p + 7) div 8) - unat p"
proof -
  let ?nb = "(p + 7) div 8 :: 32 word"
  have nb: "unat ?nb = (unat p + 7) div 8" by (rule prefix_nbytes_unat [OF assms])
  have "unat (?nb * 8) = unat ?nb * 8"
    using assms nb by (simp add: unat_word_ariths)
  moreover have "p \<le> ?nb * 8"
    using calculation nb by (simp add: word_le_nat_alt)
  ultimately show ?thesis
    using nb by (simp add: unat_sub)
qed

lemma length_resize: "length (resize n bs) = n"
  by (simp add: resize_def)

lemma resize_same: "length bs = n \<Longrightarrow> resize n bs = bs"
  by (simp add: resize_def)

lemma length_mask_bytes_raw: "length (mask_bytes p bs) = unat ((p + 7) div 8)"
  by (simp add: mask_bytes_def Let_def length_resize)


lemma mask_bytes_zero: "mask_bytes 0 bs = []"
  by (simp add: mask_bytes_def resize_def)


lemma mask_last_twice:
  fixes m :: byte
  assumes "0 < n" "length xs = n"
  shows "(xs[n - 1 := xs ! (n - 1) AND m])[n - 1 := (xs[n - 1 := xs ! (n - 1) AND m]) ! (n - 1) AND m]
         = xs[n - 1 := xs ! (n - 1) AND m]"
  using assms by (simp add: and.assoc)

lemma mask_bytes_idem: "mask_bytes p (mask_bytes p bs) = mask_bytes p bs"
proof (cases "(p + 7) div 8 > 0")
  case False
  then have "(p + 7) div 8 = 0" by (simp add: word_greater_zero_iff)
  then show ?thesis by (simp add: mask_bytes_def resize_def)
next
  case True
  let ?nb = "unat ((p + 7) div 8 :: 32 word)"
  let ?m = "ucast (push_bit (unat ((p + 7) div 8 * 8 - p)) (0xff :: 32 word)) :: byte"
  let ?r = "resize ?nb bs"
  from True have pos: "0 < ?nb" by (simp add: unat_gt_0 word_greater_zero_iff)
  have one: "mask_bytes p bs = ?r[?nb - 1 := ?r ! (?nb - 1) AND ?m]"
    using True by (simp add: mask_bytes_def Let_def)
  have len: "length (?r[?nb - 1 := ?r ! (?nb - 1) AND ?m]) = ?nb"
    by (simp add: length_resize)
  have two: "mask_bytes p (?r[?nb - 1 := ?r ! (?nb - 1) AND ?m]) =
      (?r[?nb - 1 := ?r ! (?nb - 1) AND ?m])[?nb - 1 := (?r[?nb - 1 := ?r ! (?nb - 1) AND ?m]) ! (?nb - 1) AND ?m]"
    using True by (simp only: mask_bytes_def Let_def resize_same [OF len] if_True)
  show ?thesis
    by (simp only: one two mask_last_twice [OF pos length_resize])
qed


lemma tail_index_arith:
  fixes n i :: nat
  assumes lo: "n \<le> i" and hi: "i < 8 * ((n + 7) div 8)"
  shows "i div 8 = (n + 7) div 8 - 1" and "\<not> (8 * ((n + 7) div 8) - n \<le> 7 - i mod 8)"
proof -
  define q where "q = (n + 7) div 8"
  have q1: "8 * q \<le> n + 7" unfolding q_def by simp
  have hi': "i < 8 * q" using hi by (simp add: q_def)
  have "8 * (q - 1) \<le> i" using q1 lo by simp
  moreover have "i < 8 * (q - 1) + 8" using hi' by simp
  ultimately have d: "i div 8 = q - 1"
    by (metis (no_types) div_nat_eqI mult.commute mult_Suc_right add.commute)
  have "i mod 8 = i - 8 * (i div 8)" by (simp add: minus_mult_div_eq_mod [symmetric] mult.commute)
  then have m: "i mod 8 = i - 8 * (q - 1)" by (simp only: d)
  show "i div 8 = (n + 7) div 8 - 1" using d unfolding q_def .
  have "\<not> (8 * q - n \<le> 7 - i mod 8)"
    using m lo hi' q1 by simp
  then show "\<not> (8 * ((n + 7) div 8) - n \<le> 7 - i mod 8)" unfolding q_def .
qed

lemma mask_bytes_length:
  "unat p \<le> 2 ^ 32 - 8 \<Longrightarrow> length (mask_bytes p bs) = (unat p + 7) div 8"
  by (simp add: length_mask_bytes_raw prefix_nbytes_unat)

lemma mask_bytes_tail_bits:
  assumes p: "unat p \<le> 2 ^ 32 - 8"
    and lo: "unat p \<le> i" and hi: "i < 8 * length (mask_bytes p bs)"
  shows "\<not> bit_at (mask_bytes p bs) i"
proof -
  let ?nb = "(unat p + 7) div 8"
  let ?k = "8 * ?nb - unat p"
  have nb: "unat ((p + 7) div 8 :: 32 word) = ?nb" by (rule prefix_nbytes_unat [OF p])
  have k: "unat ((p + 7) div 8 * 8 - p) = ?k" by (rule slack_unat [OF p])
  have hi': "i < 8 * ?nb" using hi by (simp only: mask_bytes_length [OF p])
  then have pos: "0 < ?nb" by simp
  then have wpos: "(p + 7) div 8 > 0"
    by (simp add: nb [symmetric] word_greater_zero_iff unat_gt_0)
  have idx: "i div 8 = ?nb - 1" by (rule tail_index_arith(1) [OF lo hi'])
  have nok: "\<not> (?k \<le> 7 - i mod 8)" by (rule tail_index_arith(2) [OF lo hi'])
  have "mask_bytes p bs = (resize ?nb bs)[?nb - 1 :=
      (resize ?nb bs ! (?nb - 1)) AND ucast (push_bit ?k (0xff :: 32 word))]"
    using wpos by (simp only: mask_bytes_def Let_def nb k if_True)
  then have byte: "mask_bytes p bs ! (?nb - 1) =
      (resize ?nb bs ! (?nb - 1)) AND ucast (push_bit ?k (0xff :: 32 word))"
    using pos by (simp add: length_resize)
  show ?thesis
    using nok by (simp only: bit_at_def idx byte bit_and_iff mask_byte_bit) simp
qed

lemma mask_bytes_front:
  "take (length (mask_bytes p bs) - 1) (mask_bytes p bs) =
   take (length (mask_bytes p bs) - 1) (resize (length (mask_bytes p bs)) bs)"
  by (simp add: length_mask_bytes_raw) (simp add: mask_bytes_def Let_def)

lemma mask_bytes_last:
  assumes p: "unat p \<le> 2 ^ 32 - 8"
  shows "0 < length (mask_bytes p bs) \<longrightarrow>
     mask_bytes p bs ! (length (mask_bytes p bs) - 1) =
       (resize (length (mask_bytes p bs)) bs ! (length (mask_bytes p bs) - 1)) AND
       ucast (push_bit (8 * length (mask_bytes p bs) - unat p) (0xff :: 32 word))"
proof
  let ?nb = "(unat p + 7) div 8"
  assume "0 < length (mask_bytes p bs)"
  then have pos: "0 < ?nb" by (simp only: mask_bytes_length [OF p])
  have nb: "unat ((p + 7) div 8 :: 32 word) = ?nb" by (rule prefix_nbytes_unat [OF p])
  have k: "unat ((p + 7) div 8 * 8 - p) = 8 * ?nb - unat p" by (rule slack_unat [OF p])
  have wpos: "(p + 7) div 8 > 0"
    using pos by (simp add: nb [symmetric] word_greater_zero_iff unat_gt_0)
  have "mask_bytes p bs = (resize ?nb bs)[?nb - 1 :=
      (resize ?nb bs ! (?nb - 1)) AND ucast (push_bit (8 * ?nb - unat p) (0xff :: 32 word))]"
    using wpos by (simp only: mask_bytes_def Let_def nb k if_True)
  then have "mask_bytes p bs ! (?nb - 1) =
      (resize ?nb bs ! (?nb - 1)) AND ucast (push_bit (8 * ?nb - unat p) (0xff :: 32 word))"
    using pos by (simp add: length_resize)
  then show "mask_bytes p bs ! (length (mask_bytes p bs) - 1) =
       (resize (length (mask_bytes p bs)) bs ! (length (mask_bytes p bs) - 1)) AND
       ucast (push_bit (8 * length (mask_bytes p bs) - unat p) (0xff :: 32 word))"
    by (simp only: mask_bytes_length [OF p])
qed

text \<open>Claim C3. The prefix length \<open>p\<close> that \<^verbatim>\<open>addr_to_string\<close> applies is
  the configured one for the family and the role of the address: the client or the server
  length, for IPv6 or for IPv4. For an address and that prefix length, with \<open>p + 7\<close> inside the range of \<^verbatim>\<open>unsigned\<close> (every configured
  prefix length from 0 to 128 is), the string \<open>m\<close> returned by
  \<^verbatim>\<open>addr_to_string\<close> has exactly \<open>ceil(p/8)\<close> bytes; every bit of \<open>m\<close> at
  position \<open>p\<close> or later is zero; the bytes before the last are the leading bytes of the
  address and the last byte is the corresponding byte masked with the low eight bits of
  \<^verbatim>\<open>0xff << (nbytes*8 - p)\<close>; \<open>p = 0\<close> gives the empty string; and masking the
  masked address again with the same prefix returns \<open>m\<close>.\<close>

theorem addr_to_string_masks_prefix:
  assumes p: "p = select_prefix_len addr cfg is_client"
    and m: "m = addr_to_string addr cfg is_client"
    and range: "unat p \<le> 2 ^ 32 - 8"
  shows "length m = (unat p + 7) div 8
       \<and> (\<forall>i. unat p \<le> i \<and> i < 8 * length m \<longrightarrow> \<not> bit_at m i)
       \<and> take (length m - 1) m = take (length m - 1) (resize (length m) (asNetworkBinary addr))
       \<and> (0 < length m \<longrightarrow>
            m ! (length m - 1) =
              ((resize (length m) (asNetworkBinary addr)) ! (length m - 1)) AND
              ucast (push_bit (8 * length m - unat p) (0xff :: 32 word)))
       \<and> (p = 0 \<longrightarrow> m = [])
       \<and> addr_to_string (addr\<lparr>asNetworkBinary := m\<rparr>) cfg is_client = m
       \<and> (is_ipv6 addr \<and> is_client \<longrightarrow> p = client_address_prefix_ipv6 cfg)
       \<and> (is_ipv6 addr \<and> \<not> is_client \<longrightarrow> p = server_address_prefix_ipv6 cfg)
       \<and> (\<not> is_ipv6 addr \<and> is_client \<longrightarrow> p = client_address_prefix_ipv4 cfg)
       \<and> (\<not> is_ipv6 addr \<and> \<not> is_client \<longrightarrow> p = server_address_prefix_ipv4 cfg)"
proof -
  have sel: "(is_ipv6 addr \<and> is_client \<longrightarrow> p = client_address_prefix_ipv6 cfg)
       \<and> (is_ipv6 addr \<and> \<not> is_client \<longrightarrow> p = server_address_prefix_ipv6 cfg)
       \<and> (\<not> is_ipv6 addr \<and> is_client \<longrightarrow> p = client_address_prefix_ipv4 cfg)
       \<and> (\<not> is_ipv6 addr \<and> \<not> is_client \<longrightarrow> p = server_address_prefix_ipv4 cfg)"
    by (simp add: p select_prefix_len_def)
  have mb: "m = mask_bytes p (asNetworkBinary addr)"
    by (simp add: m p addr_to_string_def)
  have len: "length m = (unat p + 7) div 8"
    by (simp only: mb mask_bytes_length [OF range])
  have tail: "\<forall>i. unat p \<le> i \<and> i < 8 * length m \<longrightarrow> \<not> bit_at m i"
    using mask_bytes_tail_bits [OF range] by (simp add: mb)
  have zero: "p = 0 \<longrightarrow> m = []"
    by (simp add: mb mask_bytes_zero)
  have "select_prefix_len (addr\<lparr>asNetworkBinary := m\<rparr>) cfg is_client = p"
    by (simp add: p select_prefix_len_def)
  then have idem: "addr_to_string (addr\<lparr>asNetworkBinary := m\<rparr>) cfg is_client = m"
    by (simp add: addr_to_string_def mb mask_bytes_idem)
  have front: "take (length m - 1) m = take (length m - 1) (resize (length m) (asNetworkBinary addr))"
    unfolding mb by (rule mask_bytes_front)
  have lastb: "0 < length m \<longrightarrow>
            m ! (length m - 1) =
              ((resize (length m) (asNetworkBinary addr)) ! (length m - 1)) AND
              ucast (push_bit (8 * length m - unat p) (0xff :: 32 word))"
    unfolding mb by (rule mask_bytes_last [OF range])
  from len tail front lastb zero idem sel show ?thesis by blast
qed


text \<open>The client address 198.51.100.77 under the 20-bit client prefix for IPv4: three
  bytes, the last one masked with \<^verbatim>\<open>0xf0\<close>. The server address 192.0.2.1 under
  the 32-bit server prefix for IPv4: all four bytes. An IPv6 server address under a
  server prefix of 12 bits: two bytes.\<close>

theorem addr_to_string_masks_prefix_witness:
  "unat (20 :: 32 word) \<le> 2 ^ 32 - 8
   \<and> addr_to_string sample_client sample_config True = [198, 51, 96]
   \<and> length (addr_to_string sample_client sample_config True) = 3
   \<and> \<not> bit_at (addr_to_string sample_client sample_config True) 20
   \<and> addr_to_string (sample_client\<lparr>asNetworkBinary := [198, 51, 96]\<rparr>) sample_config True
       = [198, 51, 96]
   \<and> select_prefix_len sample_client sample_config True
       = client_address_prefix_ipv4 sample_config
   \<and> select_prefix_len sample_server sample_config False
       = server_address_prefix_ipv4 sample_config
   \<and> addr_to_string sample_server sample_config False = [192, 0, 2, 1]
   \<and> select_prefix_len sample_server_v6 short_v6_config False
       = server_address_prefix_ipv6 short_v6_config
   \<and> addr_to_string sample_server_v6 short_v6_config False = [32, 0]"
proof -
  have p: "(20 :: 32 word) = select_prefix_len sample_client sample_config True"
    by (simp add: select_prefix_len_def sample_client_def sample_config_def)
  have m: "[198, 51, 96] = addr_to_string sample_client sample_config True"
    by (simp add: addr_to_string_def mask_bytes_def resize_def select_prefix_len_def
        sample_client_def sample_config_def Let_def)
  have r: "unat (20 :: 32 word) \<le> 2 ^ 32 - 8" by simp
  have c: "\<not> is_ipv6 sample_client" by (simp add: sample_client_def)
  have first: "unat (20 :: 32 word) \<le> 2 ^ 32 - 8
   \<and> addr_to_string sample_client sample_config True = [198, 51, 96]
   \<and> length (addr_to_string sample_client sample_config True) = 3
   \<and> \<not> bit_at (addr_to_string sample_client sample_config True) 20
   \<and> addr_to_string (sample_client\<lparr>asNetworkBinary := [198, 51, 96]\<rparr>) sample_config True
       = [198, 51, 96]
   \<and> select_prefix_len sample_client sample_config True
       = client_address_prefix_ipv4 sample_config"
    using addr_to_string_masks_prefix [OF p m r] r c
    by (simp add: m [symmetric] p [symmetric])
  have ps: "(32 :: 32 word) = select_prefix_len sample_server sample_config False"
    by (simp add: select_prefix_len_def sample_server_def sample_config_def)
  have ms: "[192, 0, 2, 1] = addr_to_string sample_server sample_config False"
    by (simp add: addr_to_string_def mask_bytes_def resize_def select_prefix_len_def
        sample_server_def sample_config_def Let_def)
  have rs: "unat (32 :: 32 word) \<le> 2 ^ 32 - 8" by simp
  have s: "\<not> is_ipv6 sample_server" by (simp add: sample_server_def)
  have second: "select_prefix_len sample_server sample_config False
       = server_address_prefix_ipv4 sample_config
   \<and> addr_to_string sample_server sample_config False = [192, 0, 2, 1]"
    using addr_to_string_masks_prefix [OF ps ms rs] s
    by (simp add: ms [symmetric] ps [symmetric])
  have p6: "(12 :: 32 word) = select_prefix_len sample_server_v6 short_v6_config False"
    by (simp add: select_prefix_len_def sample_server_v6_def short_v6_config_def)
  have m6: "[32, 0] = addr_to_string sample_server_v6 short_v6_config False"
    by (simp add: addr_to_string_def mask_bytes_def resize_def select_prefix_len_def
        sample_server_v6_def short_v6_config_def Let_def)
  have r6: "unat (12 :: 32 word) \<le> 2 ^ 32 - 8" by simp
  have s6: "is_ipv6 sample_server_v6" by (simp add: sample_server_v6_def)
  have third: "select_prefix_len sample_server_v6 short_v6_config False
       = server_address_prefix_ipv6 short_v6_config
   \<and> addr_to_string sample_server_v6 short_v6_config False = [32, 0]"
    using addr_to_string_masks_prefix [OF p6 m6 r6] s6
    by (simp add: m6 [symmetric] p6 [symmetric])
  from first second third show ?thesis by blast
qed

subsection \<open>Intern tables\<close>

lemma index_of_Some: "index_of v tbl = Some i \<Longrightarrow> i < length tbl \<and> tbl ! i = v"
proof (induction tbl arbitrary: i)
  case Nil
  then show ?case by simp
next
  case (Cons x xs)
  then show ?case by (cases "v = x") auto
qed

lemma intern_lookup: "fst (intern v tbl) < length (snd (intern v tbl)) \<and>
    snd (intern v tbl) ! fst (intern v tbl) = v"
  by (cases "index_of v tbl") (auto simp: intern_def dest: index_of_Some)

lemma intern_extends: "\<exists>ys. snd (intern v tbl) = tbl @ ys"
  by (cases "index_of v tbl") (auto simp: intern_def)

lemma intern_keeps: "i < length tbl \<Longrightarrow> snd (intern v tbl) ! i = tbl ! i"
  by (cases "index_of v tbl") (auto simp: intern_def nth_append)

lemma intern_length: "length tbl \<le> length (snd (intern v tbl))"
  by (cases "index_of v tbl") (auto simp: intern_def)

lemma add_address_simps [simp]:
  "earliest_time (snd (add_address v d)) = earliest_time d"
  "start_time (snd (add_address v d)) = start_time d"
  "end_time (snd (add_address v d)) = end_time d"
  "start_packet_statistics (snd (add_address v d)) = start_packet_statistics d"
  "last_packet_statistics (snd (add_address v d)) = last_packet_statistics d"
  "query_response_items (snd (add_address v d)) = query_response_items d"
  "address_event_counts (snd (add_address v d)) = address_event_counts d"
  "class_types (snd (add_address v d)) = class_types d"
  "names_rdatas (snd (add_address v d)) = names_rdatas d"
  "query_response_signatures (snd (add_address v d)) = query_response_signatures d"
  "ip_addresses (snd (add_address v d)) = snd (intern v (ip_addresses d))"
  "fst (add_address v d) = fst (intern v (ip_addresses d))"
  by (simp_all add: add_address_def case_prod_beta)

lemma add_classtype_simps [simp]:
  "earliest_time (snd (add_classtype v d)) = earliest_time d"
  "start_time (snd (add_classtype v d)) = start_time d"
  "end_time (snd (add_classtype v d)) = end_time d"
  "start_packet_statistics (snd (add_classtype v d)) = start_packet_statistics d"
  "last_packet_statistics (snd (add_classtype v d)) = last_packet_statistics d"
  "query_response_items (snd (add_classtype v d)) = query_response_items d"
  "address_event_counts (snd (add_classtype v d)) = address_event_counts d"
  "ip_addresses (snd (add_classtype v d)) = ip_addresses d"
  "names_rdatas (snd (add_classtype v d)) = names_rdatas d"
  "query_response_signatures (snd (add_classtype v d)) = query_response_signatures d"
  "class_types (snd (add_classtype v d)) = snd (intern v (class_types d))"
  "fst (add_classtype v d) = fst (intern v (class_types d))"
  by (simp_all add: add_classtype_def case_prod_beta)

lemma add_name_rdata_simps [simp]:
  "earliest_time (snd (add_name_rdata v d)) = earliest_time d"
  "start_time (snd (add_name_rdata v d)) = start_time d"
  "end_time (snd (add_name_rdata v d)) = end_time d"
  "start_packet_statistics (snd (add_name_rdata v d)) = start_packet_statistics d"
  "last_packet_statistics (snd (add_name_rdata v d)) = last_packet_statistics d"
  "query_response_items (snd (add_name_rdata v d)) = query_response_items d"
  "address_event_counts (snd (add_name_rdata v d)) = address_event_counts d"
  "ip_addresses (snd (add_name_rdata v d)) = ip_addresses d"
  "class_types (snd (add_name_rdata v d)) = class_types d"
  "query_response_signatures (snd (add_name_rdata v d)) = query_response_signatures d"
  "names_rdatas (snd (add_name_rdata v d)) = snd (intern v (names_rdatas d))"
  "fst (add_name_rdata v d) = fst (intern v (names_rdatas d))"
  by (simp_all add: add_name_rdata_def case_prod_beta)

lemma add_query_response_signature_simps [simp]:
  "earliest_time (snd (add_query_response_signature v d)) = earliest_time d"
  "start_time (snd (add_query_response_signature v d)) = start_time d"
  "end_time (snd (add_query_response_signature v d)) = end_time d"
  "start_packet_statistics (snd (add_query_response_signature v d)) = start_packet_statistics d"
  "last_packet_statistics (snd (add_query_response_signature v d)) = last_packet_statistics d"
  "query_response_items (snd (add_query_response_signature v d)) = query_response_items d"
  "address_event_counts (snd (add_query_response_signature v d)) = address_event_counts d"
  "ip_addresses (snd (add_query_response_signature v d)) = ip_addresses d"
  "class_types (snd (add_query_response_signature v d)) = class_types d"
  "names_rdatas (snd (add_query_response_signature v d)) = names_rdatas d"
  "query_response_signatures (snd (add_query_response_signature v d)) = snd (intern v (query_response_signatures d))"
  "fst (add_query_response_signature v d) = fst (intern v (query_response_signatures d))"
  by (simp_all add: add_query_response_signature_def case_prod_beta)

subsection \<open>What each paragraph of writeBasic does to the locals\<close>

lemma signature_info_qs [simp]:
  "server_address (qs (basic_signature_info cfg qr d st)) = (case serverIP d of Some a \<Rightarrow> if \<not> exclude_server_address (exclude_hints cfg) then Some (fst (intern (addr_to_string a cfg False) (ip_addresses (blk st)))) else server_address (qs st) | None \<Rightarrow> server_address (qs st))"
  "server_port (qs (basic_signature_info cfg qr d st)) = (if \<not> exclude_server_port (exclude_hints cfg) \<and> serverPort d \<noteq> None then serverPort d else server_port (qs st))"
  "qdcount (qs (basic_signature_info cfg qr d st)) = qdcount (qs st)"
  "query_classtype (qs (basic_signature_info cfg qr d st)) = query_classtype (qs st)"
  "query_opcode (qs (basic_signature_info cfg qr d st)) = query_opcode (qs st)"
  "query_rcode (qs (basic_signature_info cfg qr d st)) = query_rcode (qs st)"
  "response_rcode (qs (basic_signature_info cfg qr d st)) = response_rcode (qs st)"
  "query_ancount (qs (basic_signature_info cfg qr d st)) = query_ancount (qs st)"
  "query_nscount (qs (basic_signature_info cfg qr d st)) = query_nscount (qs st)"
  "query_arcount (qs (basic_signature_info cfg qr d st)) = query_arcount (qs st)"
  by (simp_all add: basic_signature_info_def Let_def case_prod_beta split: option.split list.split Exchange.split)

lemma signature_info_qri [simp]:
  "qri (basic_signature_info cfg qr d st) = qri st"
  by (simp_all add: basic_signature_info_def Let_def case_prod_beta split: option.split list.split Exchange.split)

lemma signature_info_blk [simp]:
  "earliest_time (blk (basic_signature_info cfg qr d st)) = earliest_time (blk st)"
  "start_time (blk (basic_signature_info cfg qr d st)) = start_time (blk st)"
  "end_time (blk (basic_signature_info cfg qr d st)) = end_time (blk st)"
  "start_packet_statistics (blk (basic_signature_info cfg qr d st)) = start_packet_statistics (blk st)"
  "last_packet_statistics (blk (basic_signature_info cfg qr d st)) = last_packet_statistics (blk st)"
  "query_response_items (blk (basic_signature_info cfg qr d st)) = query_response_items (blk st)"
  "address_event_counts (blk (basic_signature_info cfg qr d st)) = address_event_counts (blk st)"
  "ip_addresses (blk (basic_signature_info cfg qr d st)) = (case serverIP d of Some a \<Rightarrow> if \<not> exclude_server_address (exclude_hints cfg) then snd (intern (addr_to_string a cfg False) (ip_addresses (blk st))) else ip_addresses (blk st) | None \<Rightarrow> ip_addresses (blk st))"
  "class_types (blk (basic_signature_info cfg qr d st)) = class_types (blk st)"
  "names_rdatas (blk (basic_signature_info cfg qr d st)) = names_rdatas (blk st)"
  "query_response_signatures (blk (basic_signature_info cfg qr d st)) = query_response_signatures (blk st)"
  by (simp_all add: basic_signature_info_def Let_def case_prod_beta split: option.split list.split Exchange.split)

lemma item_info_qs [simp]:
  "server_address (qs (basic_item_info cfg d st)) = server_address (qs st)"
  "server_port (qs (basic_item_info cfg d st)) = server_port (qs st)"
  "qdcount (qs (basic_item_info cfg d st)) = (if \<not> exclude_query_qdcount (exclude_hints cfg) then Some (questions_count (dns d)) else qdcount (qs st))"
  "query_classtype (qs (basic_item_info cfg d st)) = query_classtype (qs st)"
  "query_opcode (qs (basic_item_info cfg d st)) = query_opcode (qs st)"
  "query_rcode (qs (basic_item_info cfg d st)) = query_rcode (qs st)"
  "response_rcode (qs (basic_item_info cfg d st)) = response_rcode (qs st)"
  "query_ancount (qs (basic_item_info cfg d st)) = query_ancount (qs st)"
  "query_nscount (qs (basic_item_info cfg d st)) = query_nscount (qs st)"
  "query_arcount (qs (basic_item_info cfg d st)) = query_arcount (qs st)"
  by (simp_all add: basic_item_info_def Let_def case_prod_beta split: option.split list.split Exchange.split)

lemma item_info_qri [simp]:
  "qr_flags (qri (basic_item_info cfg d st)) = qr_flags (qri st)"
  "tstamp (qri (basic_item_info cfg d st)) = (if \<not> exclude_timestamp (exclude_hints cfg) then Some (timestamp d) else tstamp (qri st))"
  "client_address (qri (basic_item_info cfg d st)) = (case clientIP d of Some a \<Rightarrow> if \<not> exclude_client_address (exclude_hints cfg) then Some (fst (intern (addr_to_string a cfg True) (ip_addresses (blk st)))) else client_address (qri st) | None \<Rightarrow> client_address (qri st))"
  "client_port (qri (basic_item_info cfg d st)) = (if \<not> exclude_client_port (exclude_hints cfg) \<and> clientPort d \<noteq> None then clientPort d else client_port (qri st))"
  "transaction_id (qri (basic_item_info cfg d st)) = (if \<not> exclude_transaction_id (exclude_hints cfg) then Some (dns_id (dns d)) else transaction_id (qri st))"
  "qname (qri (basic_item_info cfg d st)) = qname (qri st)"
  by (simp_all add: basic_item_info_def Let_def case_prod_beta split: option.split list.split Exchange.split)

lemma item_info_blk [simp]:
  "earliest_time (blk (basic_item_info cfg d st)) = earliest_time (blk st)"
  "start_time (blk (basic_item_info cfg d st)) = start_time (blk st)"
  "end_time (blk (basic_item_info cfg d st)) = end_time (blk st)"
  "start_packet_statistics (blk (basic_item_info cfg d st)) = start_packet_statistics (blk st)"
  "last_packet_statistics (blk (basic_item_info cfg d st)) = last_packet_statistics (blk st)"
  "query_response_items (blk (basic_item_info cfg d st)) = query_response_items (blk st)"
  "address_event_counts (blk (basic_item_info cfg d st)) = address_event_counts (blk st)"
  "ip_addresses (blk (basic_item_info cfg d st)) = (case clientIP d of Some a \<Rightarrow> if \<not> exclude_client_address (exclude_hints cfg) then snd (intern (addr_to_string a cfg True) (ip_addresses (blk st))) else ip_addresses (blk st) | None \<Rightarrow> ip_addresses (blk st))"
  "class_types (blk (basic_item_info cfg d st)) = class_types (blk st)"
  "names_rdatas (blk (basic_item_info cfg d st)) = names_rdatas (blk st)"
  "query_response_signatures (blk (basic_item_info cfg d st)) = query_response_signatures (blk st)"
  by (simp_all add: basic_item_info_def Let_def case_prod_beta split: option.split list.split Exchange.split)

lemma first_question_qs [simp]:
  "server_address (qs (basic_first_question cfg d st)) = server_address (qs st)"
  "server_port (qs (basic_first_question cfg d st)) = server_port (qs st)"
  "qdcount (qs (basic_first_question cfg d st)) = qdcount (qs st)"
  "query_classtype (qs (basic_first_question cfg d st)) = (case queries (dns d) of [] \<Rightarrow> query_classtype (qs st) | query # rest \<Rightarrow> if \<not> exclude_query_class_type (exclude_hints cfg) then Some (fst (intern \<lparr>qtype = query_type query, qclass = query_class query\<rparr> (class_types (blk st)))) else query_classtype (qs st))"
  "query_opcode (qs (basic_first_question cfg d st)) = query_opcode (qs st)"
  "query_rcode (qs (basic_first_question cfg d st)) = query_rcode (qs st)"
  "response_rcode (qs (basic_first_question cfg d st)) = response_rcode (qs st)"
  "query_ancount (qs (basic_first_question cfg d st)) = query_ancount (qs st)"
  "query_nscount (qs (basic_first_question cfg d st)) = query_nscount (qs st)"
  "query_arcount (qs (basic_first_question cfg d st)) = query_arcount (qs st)"
  by (simp_all add: basic_first_question_def Let_def case_prod_beta split: option.split list.split Exchange.split)

lemma first_question_qri [simp]:
  "qr_flags (qri (basic_first_question cfg d st)) = (if queries (dns d) = [] then qr_flags (qri st) OR QUERY_HAS_NO_QUESTION else qr_flags (qri st))"
  "tstamp (qri (basic_first_question cfg d st)) = tstamp (qri st)"
  "client_address (qri (basic_first_question cfg d st)) = client_address (qri st)"
  "client_port (qri (basic_first_question cfg d st)) = client_port (qri st)"
  "transaction_id (qri (basic_first_question cfg d st)) = transaction_id (qri st)"
  "qname (qri (basic_first_question cfg d st)) = (case queries (dns d) of [] \<Rightarrow> qname (qri st) | query # rest \<Rightarrow> if \<not> exclude_query_name (exclude_hints cfg) then Some (fst (intern (dname query) (names_rdatas (blk st)))) else qname (qri st))"
  by (simp_all add: basic_first_question_def Let_def case_prod_beta split: option.split list.split Exchange.split)

lemma first_question_blk [simp]:
  "earliest_time (blk (basic_first_question cfg d st)) = earliest_time (blk st)"
  "start_time (blk (basic_first_question cfg d st)) = start_time (blk st)"
  "end_time (blk (basic_first_question cfg d st)) = end_time (blk st)"
  "start_packet_statistics (blk (basic_first_question cfg d st)) = start_packet_statistics (blk st)"
  "last_packet_statistics (blk (basic_first_question cfg d st)) = last_packet_statistics (blk st)"
  "query_response_items (blk (basic_first_question cfg d st)) = query_response_items (blk st)"
  "address_event_counts (blk (basic_first_question cfg d st)) = address_event_counts (blk st)"
  "ip_addresses (blk (basic_first_question cfg d st)) = ip_addresses (blk st)"
  "class_types (blk (basic_first_question cfg d st)) = (case queries (dns d) of [] \<Rightarrow> class_types (blk st) | query # rest \<Rightarrow> if \<not> exclude_query_class_type (exclude_hints cfg) then snd (intern \<lparr>qtype = query_type query, qclass = query_class query\<rparr> (class_types (blk st))) else class_types (blk st))"
  "names_rdatas (blk (basic_first_question cfg d st)) = (case queries (dns d) of [] \<Rightarrow> names_rdatas (blk st) | query # rest \<Rightarrow> if \<not> exclude_query_name (exclude_hints cfg) then snd (intern (dname query) (names_rdatas (blk st))) else names_rdatas (blk st))"
  "query_response_signatures (blk (basic_first_question cfg d st)) = query_response_signatures (blk st)"
  by (simp_all add: basic_first_question_def Let_def case_prod_beta split: option.split list.split Exchange.split)

lemma query_sizes_qs [simp]:
  "qs (basic_query_sizes cfg q st) = qs st"
  by (simp_all add: basic_query_sizes_def Let_def case_prod_beta split: option.split list.split Exchange.split)

lemma query_sizes_qri [simp]:
  "qr_flags (qri (basic_query_sizes cfg q st)) = qr_flags (qri st) OR HAS_QUERY"
  "tstamp (qri (basic_query_sizes cfg q st)) = tstamp (qri st)"
  "client_address (qri (basic_query_sizes cfg q st)) = client_address (qri st)"
  "client_port (qri (basic_query_sizes cfg q st)) = client_port (qri st)"
  "transaction_id (qri (basic_query_sizes cfg q st)) = transaction_id (qri st)"
  "qname (qri (basic_query_sizes cfg q st)) = qname (qri st)"
  by (simp_all add: basic_query_sizes_def Let_def case_prod_beta split: option.split list.split Exchange.split)

lemma query_sizes_blk [simp]:
  "blk (basic_query_sizes cfg q st) = blk st"
  by (simp_all add: basic_query_sizes_def Let_def case_prod_beta split: option.split list.split Exchange.split)

lemma query_counts_qs [simp]:
  "server_address (qs (basic_query_counts cfg q st)) = server_address (qs st)"
  "server_port (qs (basic_query_counts cfg q st)) = server_port (qs st)"
  "qdcount (qs (basic_query_counts cfg q st)) = qdcount (qs st)"
  "query_classtype (qs (basic_query_counts cfg q st)) = query_classtype (qs st)"
  "query_opcode (qs (basic_query_counts cfg q st)) = (if \<not> exclude_query_opcode (exclude_hints cfg) then Some (opcode (dns q)) else query_opcode (qs st))"
  "query_rcode (qs (basic_query_counts cfg q st)) = (if \<not> exclude_query_rcode (exclude_hints cfg) then Some (ucast (rcode (dns q))) else query_rcode (qs st))"
  "response_rcode (qs (basic_query_counts cfg q st)) = response_rcode (qs st)"
  "query_ancount (qs (basic_query_counts cfg q st)) = (if \<not> exclude_query_ancount (exclude_hints cfg) then Some (answers_count (dns q)) else query_ancount (qs st))"
  "query_nscount (qs (basic_query_counts cfg q st)) = (if \<not> exclude_query_arcount (exclude_hints cfg) then Some (authority_count (dns q)) else query_nscount (qs st))"
  "query_arcount (qs (basic_query_counts cfg q st)) = (if \<not> exclude_query_nscount (exclude_hints cfg) then Some (additional_count (dns q)) else query_arcount (qs st))"
  by (simp_all add: basic_query_counts_def Let_def case_prod_beta split: option.split list.split Exchange.split)

lemma query_counts_qri [simp]:
  "qri (basic_query_counts cfg q st) = qri st"
  by (simp_all add: basic_query_counts_def Let_def case_prod_beta split: option.split list.split Exchange.split)

lemma query_counts_blk [simp]:
  "blk (basic_query_counts cfg q st) = blk st"
  by (simp_all add: basic_query_counts_def Let_def case_prod_beta split: option.split list.split Exchange.split)

lemma query_edns_qs [simp]:
  "server_address (qs (basic_query_edns cfg e st)) = server_address (qs st)"
  "server_port (qs (basic_query_edns cfg e st)) = server_port (qs st)"
  "qdcount (qs (basic_query_edns cfg e st)) = qdcount (qs st)"
  "query_classtype (qs (basic_query_edns cfg e st)) = query_classtype (qs st)"
  "query_opcode (qs (basic_query_edns cfg e st)) = query_opcode (qs st)"
  "query_rcode (qs (basic_query_edns cfg e st)) = (if \<not> exclude_query_rcode (exclude_hints cfg) then map_option (\<lambda>rc. add_extended_rcode rc (extended_rcode e)) (query_rcode (qs st)) else query_rcode (qs st))"
  "response_rcode (qs (basic_query_edns cfg e st)) = response_rcode (qs st)"
  "query_ancount (qs (basic_query_edns cfg e st)) = query_ancount (qs st)"
  "query_nscount (qs (basic_query_edns cfg e st)) = query_nscount (qs st)"
  "query_arcount (qs (basic_query_edns cfg e st)) = query_arcount (qs st)"
  by (simp_all add: basic_query_edns_def Let_def case_prod_beta split: option.split list.split Exchange.split)

lemma query_edns_qri [simp]:
  "qr_flags (qri (basic_query_edns cfg e st)) = qr_flags (qri st) OR QUERY_HAS_OPT"
  "tstamp (qri (basic_query_edns cfg e st)) = tstamp (qri st)"
  "client_address (qri (basic_query_edns cfg e st)) = client_address (qri st)"
  "client_port (qri (basic_query_edns cfg e st)) = client_port (qri st)"
  "transaction_id (qri (basic_query_edns cfg e st)) = transaction_id (qri st)"
  "qname (qri (basic_query_edns cfg e st)) = qname (qri st)"
  by (simp_all add: basic_query_edns_def Let_def case_prod_beta split: option.split list.split Exchange.split)

lemma query_edns_blk [simp]:
  "earliest_time (blk (basic_query_edns cfg e st)) = earliest_time (blk st)"
  "start_time (blk (basic_query_edns cfg e st)) = start_time (blk st)"
  "end_time (blk (basic_query_edns cfg e st)) = end_time (blk st)"
  "start_packet_statistics (blk (basic_query_edns cfg e st)) = start_packet_statistics (blk st)"
  "last_packet_statistics (blk (basic_query_edns cfg e st)) = last_packet_statistics (blk st)"
  "query_response_items (blk (basic_query_edns cfg e st)) = query_response_items (blk st)"
  "address_event_counts (blk (basic_query_edns cfg e st)) = address_event_counts (blk st)"
  "ip_addresses (blk (basic_query_edns cfg e st)) = ip_addresses (blk st)"
  "class_types (blk (basic_query_edns cfg e st)) = class_types (blk st)"
  "names_rdatas (blk (basic_query_edns cfg e st)) = (if \<not> exclude_query_opt_rdata (exclude_hints cfg) then snd (intern (rr_data e) (names_rdatas (blk st))) else names_rdatas (blk st))"
  "query_response_signatures (blk (basic_query_edns cfg e st)) = query_response_signatures (blk st)"
  by (simp_all add: basic_query_edns_def Let_def case_prod_beta split: option.split list.split Exchange.split)

lemma response_header_qs [simp]:
  "server_address (qs (basic_response_header cfg r st)) = server_address (qs st)"
  "server_port (qs (basic_response_header cfg r st)) = server_port (qs st)"
  "qdcount (qs (basic_response_header cfg r st)) = qdcount (qs st)"
  "query_classtype (qs (basic_response_header cfg r st)) = query_classtype (qs st)"
  "query_opcode (qs (basic_response_header cfg r st)) = (if \<not> exclude_query_opcode (exclude_hints cfg) \<and> query_opcode (qs st) = None then Some (opcode (dns r)) else query_opcode (qs st))"
  "query_rcode (qs (basic_response_header cfg r st)) = query_rcode (qs st)"
  "response_rcode (qs (basic_response_header cfg r st)) = (if \<not> exclude_response_rcode (exclude_hints cfg) then Some (ucast (rcode (dns r))) else response_rcode (qs st))"
  "query_ancount (qs (basic_response_header cfg r st)) = query_ancount (qs st)"
  "query_nscount (qs (basic_response_header cfg r st)) = query_nscount (qs st)"
  "query_arcount (qs (basic_response_header cfg r st)) = query_arcount (qs st)"
  by (simp_all add: basic_response_header_def Let_def case_prod_beta split: option.split list.split Exchange.split)

lemma response_header_qri [simp]:
  "qr_flags (qri (basic_response_header cfg r st)) = qr_flags (qri st) OR HAS_RESPONSE"
  "tstamp (qri (basic_response_header cfg r st)) = tstamp (qri st)"
  "client_address (qri (basic_response_header cfg r st)) = client_address (qri st)"
  "client_port (qri (basic_response_header cfg r st)) = client_port (qri st)"
  "transaction_id (qri (basic_response_header cfg r st)) = transaction_id (qri st)"
  "qname (qri (basic_response_header cfg r st)) = qname (qri st)"
  by (simp_all add: basic_response_header_def Let_def case_prod_beta split: option.split list.split Exchange.split)

lemma response_header_blk [simp]:
  "blk (basic_response_header cfg r st) = blk st"
  by (simp_all add: basic_response_header_def Let_def case_prod_beta split: option.split list.split Exchange.split)

lemma response_edns_qs [simp]:
  "server_address (qs (basic_response_edns cfg e st)) = server_address (qs st)"
  "server_port (qs (basic_response_edns cfg e st)) = server_port (qs st)"
  "qdcount (qs (basic_response_edns cfg e st)) = qdcount (qs st)"
  "query_classtype (qs (basic_response_edns cfg e st)) = query_classtype (qs st)"
  "query_opcode (qs (basic_response_edns cfg e st)) = query_opcode (qs st)"
  "query_rcode (qs (basic_response_edns cfg e st)) = query_rcode (qs st)"
  "response_rcode (qs (basic_response_edns cfg e st)) = (if \<not> exclude_response_rcode (exclude_hints cfg) then map_option (\<lambda>rc. add_extended_rcode rc (extended_rcode e)) (response_rcode (qs st)) else response_rcode (qs st))"
  "query_ancount (qs (basic_response_edns cfg e st)) = query_ancount (qs st)"
  "query_nscount (qs (basic_response_edns cfg e st)) = query_nscount (qs st)"
  "query_arcount (qs (basic_response_edns cfg e st)) = query_arcount (qs st)"
  by (simp_all add: basic_response_edns_def Let_def case_prod_beta split: option.split list.split Exchange.split)

lemma response_edns_qri [simp]:
  "qr_flags (qri (basic_response_edns cfg e st)) = qr_flags (qri st) OR RESPONSE_HAS_OPT"
  "tstamp (qri (basic_response_edns cfg e st)) = tstamp (qri st)"
  "client_address (qri (basic_response_edns cfg e st)) = client_address (qri st)"
  "client_port (qri (basic_response_edns cfg e st)) = client_port (qri st)"
  "transaction_id (qri (basic_response_edns cfg e st)) = transaction_id (qri st)"
  "qname (qri (basic_response_edns cfg e st)) = qname (qri st)"
  by (simp_all add: basic_response_edns_def Let_def case_prod_beta split: option.split list.split Exchange.split)

lemma response_edns_blk [simp]:
  "blk (basic_response_edns cfg e st) = blk st"
  by (simp_all add: basic_response_edns_def Let_def case_prod_beta split: option.split list.split Exchange.split)

lemma delay_qs [simp]:
  "qs (basic_delay cfg qr st) = qs st"
  by (simp_all add: basic_delay_def Let_def case_prod_beta split: option.split list.split Exchange.split)

lemma delay_qri [simp]:
  "qr_flags (qri (basic_delay cfg qr st)) = qr_flags (qri st)"
  "tstamp (qri (basic_delay cfg qr st)) = tstamp (qri st)"
  "client_address (qri (basic_delay cfg qr st)) = client_address (qri st)"
  "client_port (qri (basic_delay cfg qr st)) = client_port (qri st)"
  "transaction_id (qri (basic_delay cfg qr st)) = transaction_id (qri st)"
  "qname (qri (basic_delay cfg qr st)) = qname (qri st)"
  by (simp_all add: basic_delay_def Let_def case_prod_beta split: option.split list.split Exchange.split)

lemma delay_blk [simp]:
  "blk (basic_delay cfg qr st) = blk st"
  by (simp_all add: basic_delay_def Let_def case_prod_beta split: option.split list.split Exchange.split)

lemma flags_qs [simp]:
  "server_address (qs (basic_flags cfg st)) = server_address (qs st)"
  "server_port (qs (basic_flags cfg st)) = server_port (qs st)"
  "qdcount (qs (basic_flags cfg st)) = qdcount (qs st)"
  "query_classtype (qs (basic_flags cfg st)) = query_classtype (qs st)"
  "query_opcode (qs (basic_flags cfg st)) = query_opcode (qs st)"
  "query_rcode (qs (basic_flags cfg st)) = query_rcode (qs st)"
  "response_rcode (qs (basic_flags cfg st)) = response_rcode (qs st)"
  "query_ancount (qs (basic_flags cfg st)) = query_ancount (qs st)"
  "query_nscount (qs (basic_flags cfg st)) = query_nscount (qs st)"
  "query_arcount (qs (basic_flags cfg st)) = query_arcount (qs st)"
  by (simp_all add: basic_flags_def Let_def case_prod_beta split: option.split list.split Exchange.split)

lemma flags_qri [simp]:
  "qri (basic_flags cfg st) = qri st"
  by (simp_all add: basic_flags_def Let_def case_prod_beta split: option.split list.split Exchange.split)

lemma flags_blk [simp]:
  "blk (basic_flags cfg st) = blk st"
  by (simp_all add: basic_flags_def Let_def case_prod_beta split: option.split list.split Exchange.split)

lemma intern_qs [simp]:
  "qs (basic_intern cfg st) = qs st"
  by (simp_all add: basic_intern_def Let_def case_prod_beta split: option.split list.split Exchange.split)

lemma intern_qri [simp]:
  "qr_flags (qri (basic_intern cfg st)) = qr_flags (qri st)"
  "tstamp (qri (basic_intern cfg st)) = tstamp (qri st)"
  "client_address (qri (basic_intern cfg st)) = client_address (qri st)"
  "client_port (qri (basic_intern cfg st)) = client_port (qri st)"
  "transaction_id (qri (basic_intern cfg st)) = transaction_id (qri st)"
  "qname (qri (basic_intern cfg st)) = qname (qri st)"
  by (simp_all add: basic_intern_def Let_def case_prod_beta split: option.split list.split Exchange.split)

lemma intern_blk [simp]:
  "earliest_time (blk (basic_intern cfg st)) = earliest_time (blk st)"
  "start_time (blk (basic_intern cfg st)) = start_time (blk st)"
  "end_time (blk (basic_intern cfg st)) = end_time (blk st)"
  "start_packet_statistics (blk (basic_intern cfg st)) = start_packet_statistics (blk st)"
  "last_packet_statistics (blk (basic_intern cfg st)) = last_packet_statistics (blk st)"
  "query_response_items (blk (basic_intern cfg st)) = query_response_items (blk st)"
  "address_event_counts (blk (basic_intern cfg st)) = address_event_counts (blk st)"
  "ip_addresses (blk (basic_intern cfg st)) = ip_addresses (blk st)"
  "class_types (blk (basic_intern cfg st)) = class_types (blk st)"
  "names_rdatas (blk (basic_intern cfg st)) = names_rdatas (blk st)"
  "query_response_signatures (blk (basic_intern cfg st)) = (if \<not> exclude_qr_signature (exclude_hints cfg) then snd (intern (qs st) (query_response_signatures (blk st))) else query_response_signatures (blk st))"
  by (simp_all add: basic_intern_def Let_def case_prod_beta split: option.split list.split Exchange.split)

subsection \<open>The extended rcode\<close>

lemma add_extended_rcode_or:
  "add_extended_rcode (ucast (r :: 4 word)) e = push_bit 4 (ucast e) OR ucast r"
proof -
  have disj: "(ucast (ucast r :: 16 word) :: 32 word) AND push_bit 4 (ucast e :: 32 word) = 0"
    by (rule bit_eqI) (auto simp add: bit_simps dest: bit_imp_le_length)
  have "(ucast (ucast r :: 16 word) :: 32 word) + push_bit 4 (ucast e :: 32 word)
      = ucast (ucast r :: 16 word) OR push_bit 4 (ucast e :: 32 word)"
    by (rule disjunctive_add_eq_or [OF disj])
  then have "add_extended_rcode (ucast r) e
      = (ucast (ucast (ucast r :: 16 word) OR push_bit 4 (ucast e :: 32 word) :: 32 word) :: 16 word)"
    by (simp add: add_extended_rcode_def)
  also have "\<dots> = push_bit 4 (ucast e) OR ucast r"
    by (rule bit_eqI) (auto simp add: bit_simps dest: bit_imp_le_length)
  finally show ?thesis .
qed

lemma updateBlockStats_config [simp]: "config (updateBlockStats stats w) = config w"
  by (simp add: updateBlockStats_def Let_def)

lemma query_info_rcode:
  "edns0 (dns q) = Some e \<Longrightarrow> \<not> exclude_query_rcode (exclude_hints cfg) \<Longrightarrow>
   query_rcode (qs (basic_query_info cfg q st)) =
     Some (add_extended_rcode (ucast (rcode (dns q))) (extended_rcode e))"
  by (simp add: basic_query_info_def Let_def)

lemma response_info_query_rcode [simp]:
  "query_rcode (qs (basic_response_info cfg r st)) = query_rcode (qs st)"
  by (simp add: basic_response_info_def Let_def split: option.split)

lemma response_info_rcode:
  "edns0 (dns r) = Some e \<Longrightarrow> \<not> exclude_response_rcode (exclude_hints cfg) \<Longrightarrow>
   response_rcode (qs (basic_response_info cfg r st)) =
     Some (add_extended_rcode (ucast (rcode (dns r))) (extended_rcode e))"
  by (simp add: basic_response_info_def Let_def)

subsection \<open>Evaluation on the sample inputs\<close>

lemmas sample_defs =
  sample_config_def no_exclusions_def sample_client_def sample_server_def
  sample_question_def sample_opt_def sample_query_def sample_response_def
  sample_transaction_def sample_query_only_def sample_response_only_def
  sample_statistics_def arcount_excluded_config_def

subsection \<open>Opcode and section counts of the signature\<close>

lemma query_info_counts:
  "query_ancount (qs (basic_query_info cfg q st)) =
     (if \<not> exclude_query_ancount (exclude_hints cfg)
      then Some (answers_count (dns q)) else query_ancount (qs st))"
  "query_nscount (qs (basic_query_info cfg q st)) =
     (if \<not> exclude_query_arcount (exclude_hints cfg)
      then Some (authority_count (dns q)) else query_nscount (qs st))"
  "query_arcount (qs (basic_query_info cfg q st)) =
     (if \<not> exclude_query_nscount (exclude_hints cfg)
      then Some (additional_count (dns q)) else query_arcount (qs st))"
  "query_opcode (qs (basic_query_info cfg q st)) =
     (if \<not> exclude_query_opcode (exclude_hints cfg)
      then Some (opcode (dns q)) else query_opcode (qs st))"
  by (simp_all add: basic_query_info_def Let_def split: option.split)

lemma response_info_counts:
  "query_ancount (qs (basic_response_info cfg r st)) = query_ancount (qs st)"
  "query_nscount (qs (basic_response_info cfg r st)) = query_nscount (qs st)"
  "query_arcount (qs (basic_response_info cfg r st)) = query_arcount (qs st)"
  "query_opcode (qs (basic_response_info cfg r st)) =
     (if \<not> exclude_query_opcode (exclude_hints cfg) \<and> query_opcode (qs st) = None
      then Some (opcode (dns r)) else query_opcode (qs st))"
  by (simp_all add: basic_response_info_def Let_def split: option.split)

text \<open>What lines 211-216 store for a transaction with a query: the answer count under
  the \<^verbatim>\<open>query_ancount\<close> hint, the authority count under the
  \<^verbatim>\<open>query_arcount\<close> hint, and the additional count under the
  \<^verbatim>\<open>query_nscount\<close> hint.\<close>

lemma signature_counts:
  assumes "query_of (exchange qr) = Some q"
  shows "query_ancount (writeBasic_signature qr stats w) =
           (if \<not> exclude_query_ancount (exclude_hints (config w))
            then Some (answers_count (dns q)) else None)"
    and "query_nscount (writeBasic_signature qr stats w) =
           (if \<not> exclude_query_arcount (exclude_hints (config w))
            then Some (authority_count (dns q)) else None)"
    and "query_arcount (writeBasic_signature qr stats w) =
           (if \<not> exclude_query_nscount (exclude_hints (config w))
            then Some (additional_count (dns q)) else None)"
  using assms
  by (simp_all add: writeBasic_signature_def basic_locals_def Let_def query_info_counts
      response_info_counts empty_signature_def split: option.split)

text \<open>Claim C1, at a query (authority count 2, additional count 1) written with only the
  \<^verbatim>\<open>query_arcount\<close> hint set: the claim has \<^verbatim>\<open>query_nscount\<close> stored as
  2 and \<^verbatim>\<open>query_arcount\<close> suppressed; the code leaves
  \<^verbatim>\<open>query_nscount\<close> unset and stores \<^verbatim>\<open>query_arcount\<close> as 1, while
  \<^verbatim>\<open>query_ancount\<close> follows its own hint.\<close>

theorem section_count_hints_swapped:
  "query_nscount (writeBasic_signature sample_query_only sample_statistics
       (new_writer arcount_excluded_config False 0)) = None
   \<and> query_arcount (writeBasic_signature sample_query_only sample_statistics
       (new_writer arcount_excluded_config False 0)) = Some 1
   \<and> query_ancount (writeBasic_signature sample_query_only sample_statistics
       (new_writer arcount_excluded_config False 0)) = Some 0"
proof -
  have q: "query_of (exchange sample_query_only) = Some sample_query"
    by (simp add: sample_defs)
  show ?thesis
    by (simp add: signature_counts [OF q]) (simp add: sample_defs new_writer_def)
qed

subsection \<open>The query and the response paragraphs as wholes\<close>

lemma query_info_frame [simp]:
  "server_address (qs (basic_query_info cfg q st)) = server_address (qs st)"
  "server_port (qs (basic_query_info cfg q st)) = server_port (qs st)"
  "qdcount (qs (basic_query_info cfg q st)) = qdcount (qs st)"
  "query_classtype (qs (basic_query_info cfg q st)) = query_classtype (qs st)"
  "response_rcode (qs (basic_query_info cfg q st)) = response_rcode (qs st)"
  "tstamp (qri (basic_query_info cfg q st)) = tstamp (qri st)"
  "client_address (qri (basic_query_info cfg q st)) = client_address (qri st)"
  "client_port (qri (basic_query_info cfg q st)) = client_port (qri st)"
  "transaction_id (qri (basic_query_info cfg q st)) = transaction_id (qri st)"
  "qname (qri (basic_query_info cfg q st)) = qname (qri st)"
  "earliest_time (blk (basic_query_info cfg q st)) = earliest_time (blk st)"
  "start_time (blk (basic_query_info cfg q st)) = start_time (blk st)"
  "end_time (blk (basic_query_info cfg q st)) = end_time (blk st)"
  "start_packet_statistics (blk (basic_query_info cfg q st)) = start_packet_statistics (blk st)"
  "last_packet_statistics (blk (basic_query_info cfg q st)) = last_packet_statistics (blk st)"
  "query_response_items (blk (basic_query_info cfg q st)) = query_response_items (blk st)"
  "address_event_counts (blk (basic_query_info cfg q st)) = address_event_counts (blk st)"
  "ip_addresses (blk (basic_query_info cfg q st)) = ip_addresses (blk st)"
  "class_types (blk (basic_query_info cfg q st)) = class_types (blk st)"
  "query_response_signatures (blk (basic_query_info cfg q st)) = query_response_signatures (blk st)"
  by (simp_all add: basic_query_info_def Let_def split: option.split)

lemma response_info_frame [simp]:
  "server_address (qs (basic_response_info cfg r st)) = server_address (qs st)"
  "server_port (qs (basic_response_info cfg r st)) = server_port (qs st)"
  "qdcount (qs (basic_response_info cfg r st)) = qdcount (qs st)"
  "query_classtype (qs (basic_response_info cfg r st)) = query_classtype (qs st)"
  "tstamp (qri (basic_response_info cfg r st)) = tstamp (qri st)"
  "client_address (qri (basic_response_info cfg r st)) = client_address (qri st)"
  "client_port (qri (basic_response_info cfg r st)) = client_port (qri st)"
  "transaction_id (qri (basic_response_info cfg r st)) = transaction_id (qri st)"
  "qname (qri (basic_response_info cfg r st)) = qname (qri st)"
  "blk (basic_response_info cfg r st) = blk st"
  by (simp_all add: basic_response_info_def Let_def split: option.split)

lemma query_info_names:
  "names_rdatas (blk (basic_query_info cfg q st)) =
     (case edns0 (dns q) of
        None \<Rightarrow> names_rdatas (blk st)
      | Some e \<Rightarrow> if \<not> exclude_query_opt_rdata (exclude_hints cfg)
                  then snd (intern (rr_data e) (names_rdatas (blk st)))
                  else names_rdatas (blk st))"
  by (simp add: basic_query_info_def Let_def split: option.split)

lemma query_info_flags:
  "qr_flags (qri (basic_query_info cfg q st)) =
     (case edns0 (dns q) of
        None \<Rightarrow> qr_flags (qri st) OR HAS_QUERY
      | Some e \<Rightarrow> qr_flags (qri st) OR HAS_QUERY OR QUERY_HAS_OPT)"
  by (simp add: basic_query_info_def Let_def or.assoc split: option.split)

lemma response_info_flags:
  "qr_flags (qri (basic_response_info cfg r st)) =
     qr_flags (qri st) OR HAS_RESPONSE
       OR (case edns0 (dns r) of None \<Rightarrow> 0 | Some e \<Rightarrow> RESPONSE_HAS_OPT)
       OR (if questions_count (dns r) = 0 then RESPONSE_HAS_NO_QUESTION else 0)"
  by (simp add: basic_response_info_def Let_def or.assoc split: option.split)

subsection \<open>The statistics window and the time bounds under each operation\<close>

lemma basic_times_frame [simp]:
  "start_packet_statistics (basic_times cfg d b) = start_packet_statistics b"
  "last_packet_statistics (basic_times cfg d b) = last_packet_statistics b"
  "query_response_items (basic_times cfg d b) = query_response_items b"
  "address_event_counts (basic_times cfg d b) = address_event_counts b"
  "ip_addresses (basic_times cfg d b) = ip_addresses b"
  "class_types (basic_times cfg d b) = class_types b"
  "names_rdatas (basic_times cfg d b) = names_rdatas b"
  "query_response_signatures (basic_times cfg d b) = query_response_signatures b"
  by (simp_all add: basic_times_def Let_def split: option.split)

lemma updateBlockStats_frame [simp]:
  "enc (updateBlockStats stats w) = enc w"
  "live (updateBlockStats stats w) = live w"
  "query_response (updateBlockStats stats w) = query_response w"
  "last_end_block_statistics (updateBlockStats stats w) = stats"
  "need_start_block_stats (updateBlockStats stats w) = False"
  "start_packet_statistics (data (updateBlockStats stats w)) =
     (if need_start_block_stats w then last_end_block_statistics w
      else start_packet_statistics (data w))"
  "last_packet_statistics (data (updateBlockStats stats w)) = last_packet_statistics (data w)"
  "query_response_items (data (updateBlockStats stats w)) = query_response_items (data w)"
  "address_event_counts (data (updateBlockStats stats w)) = address_event_counts (data w)"
  "earliest_time (data (updateBlockStats stats w)) = earliest_time (data w)"
  "start_time (data (updateBlockStats stats w)) = start_time (data w)"
  "end_time (data (updateBlockStats stats w)) = end_time (data w)"
  "ip_addresses (data (updateBlockStats stats w)) = ip_addresses (data w)"
  "class_types (data (updateBlockStats stats w)) = class_types (data w)"
  "names_rdatas (data (updateBlockStats stats w)) = names_rdatas (data w)"
  "query_response_signatures (data (updateBlockStats stats w)) =
     query_response_signatures (data w)"
  by (simp_all add: updateBlockStats_def Let_def)

lemma basic_locals_blk [simp]:
  "start_packet_statistics (blk (basic_locals qr w)) = start_packet_statistics (data w)"
  "last_packet_statistics (blk (basic_locals qr w)) = last_packet_statistics (data w)"
  "query_response_items (blk (basic_locals qr w)) = query_response_items (data w)"
  "address_event_counts (blk (basic_locals qr w)) = address_event_counts (data w)"
  "earliest_time (blk (basic_locals qr w)) = earliest_time (basic_times (config w) (leading (exchange qr)) (data w))"
  "start_time (blk (basic_locals qr w)) = start_time (basic_times (config w) (leading (exchange qr)) (data w))"
  "end_time (blk (basic_locals qr w)) = end_time (basic_times (config w) (leading (exchange qr)) (data w))"
  by (simp_all add: basic_locals_def Let_def split: option.split)

lemma writeBasic_frame [simp]:
  "config (writeBasic qr stats w) = config w"
  "enc (writeBasic qr stats w) = enc w"
  "live (writeBasic qr stats w) = live w"
  "last_end_block_statistics (writeBasic qr stats w) = stats"
  "need_start_block_stats (writeBasic qr stats w) = False"
  "start_packet_statistics (data (writeBasic qr stats w)) =
     (if need_start_block_stats w then last_end_block_statistics w
      else start_packet_statistics (data w))"
  "last_packet_statistics (data (writeBasic qr stats w)) = last_packet_statistics (data w)"
  "query_response_items (data (writeBasic qr stats w)) = query_response_items (data w)"
  "address_event_counts (data (writeBasic qr stats w)) = address_event_counts (data w)"
  by (simp_all add: writeBasic_def Let_def)

lemma writeBasic_times:
  "earliest_time (data (writeBasic qr stats w)) =
     earliest_time (basic_times (config w) (leading (exchange qr)) (data w))"
  "start_time (data (writeBasic qr stats w)) =
     start_time (basic_times (config w) (leading (exchange qr)) (data w))"
  "end_time (data (writeBasic qr stats w)) =
     end_time (basic_times (config w) (leading (exchange qr)) (data w))"
  by (simp_all add: writeBasic_def Let_def basic_times_def split: option.split)

subsection \<open>The signature that writeBasic stores\<close>

text \<open>Unless the \<^verbatim>\<open>qr_signature\<close> hint is set, lines 263-264 intern the local
  \<^verbatim>\<open>qs\<close> in the block's table of signatures and store its index in the item:
  the signature that the finished record refers to is the one built in the body.\<close>

lemma writeBasic_stores_signature:
  assumes "\<not> exclude_qr_signature (exclude_hints (config w))"
  shows "\<exists>i. signature (query_response (writeBasic qr stats w)) = Some i
           \<and> i < length (query_response_signatures (data (writeBasic qr stats w)))
           \<and> query_response_signatures (data (writeBasic qr stats w)) ! i =
               writeBasic_signature qr stats w"
  using assms
  by (simp add: writeBasic_def Let_def writeBasic_signature_def basic_intern_def
      case_prod_beta intern_lookup)

lemma basic_locals_signatures:
  "query_response_signatures (blk (basic_locals qr w)) = query_response_signatures (data w)"
  by (simp add: basic_locals_def Let_def split: option.split)

lemma writeBasic_first_signature:
  assumes "\<not> exclude_qr_signature (exclude_hints (config w))"
    and "query_response_signatures (data w) = []"
  shows "signature (query_response (writeBasic qr stats w)) = Some 0"
    and "query_response_signatures (data (writeBasic qr stats w)) =
           [writeBasic_signature qr stats w]"
  using assms
  by (simp_all add: writeBasic_def Let_def writeBasic_signature_def basic_intern_def
      case_prod_beta basic_locals_signatures intern_def)

lemma sample_writer_signatures:
  "\<not> exclude_qr_signature (exclude_hints (config (new_writer sample_config False 0)))"
  "query_response_signatures (data (new_writer sample_config False 0)) = []"
  by (simp_all add: new_writer_def sample_config_def no_exclusions_def empty_block_def)

text \<open>Claim C2. For a transaction whose query carries an OPT record with extended rcode
  \<open>e\<close>, base rcode \<open>r\<close> in the header, and \<^verbatim>\<open>query_rcode\<close> not excluded, the
  signature's \<^verbatim>\<open>query_rcode\<close> is \<open>(e << 4) | r\<close>; likewise
  \<^verbatim>\<open>response_rcode\<close> for a response carrying an OPT record, with
  \<^verbatim>\<open>response_rcode\<close> not excluded; and this signature is the one that
  \<^verbatim>\<open>writeBasic\<close> interns in the block and whose index it stores in the item.\<close>

theorem edns_rcode_composition:
  "(\<forall>q e. query_of (exchange qr) = Some q \<and> edns0 (dns q) = Some e \<and>
           \<not> exclude_query_rcode (exclude_hints (config w)) \<longrightarrow>
       query_rcode (writeBasic_signature qr stats w) =
         Some (push_bit 4 (ucast (extended_rcode e)) OR ucast (rcode (dns q))))
   \<and> (\<forall>r e. response_of (exchange qr) = Some r \<and> edns0 (dns r) = Some e \<and>
           \<not> exclude_response_rcode (exclude_hints (config w)) \<longrightarrow>
       response_rcode (writeBasic_signature qr stats w) =
         Some (push_bit 4 (ucast (extended_rcode e)) OR ucast (rcode (dns r))))
   \<and> (\<not> exclude_qr_signature (exclude_hints (config w)) \<longrightarrow>
        (\<exists>i. signature (query_response (writeBasic qr stats w)) = Some i
           \<and> i < length (query_response_signatures (data (writeBasic qr stats w)))
           \<and> query_response_signatures (data (writeBasic qr stats w)) ! i =
               writeBasic_signature qr stats w))"
proof (intro conjI allI impI)
  fix q e
  assume a: "query_of (exchange qr) = Some q \<and> edns0 (dns q) = Some e \<and>
           \<not> exclude_query_rcode (exclude_hints (config w))"
  then show "query_rcode (writeBasic_signature qr stats w) =
         Some (push_bit 4 (ucast (extended_rcode e)) OR ucast (rcode (dns q)))"
    by (simp add: writeBasic_signature_def basic_locals_def Let_def query_info_rcode
        add_extended_rcode_or split: option.split)
next
  fix r e
  assume a: "response_of (exchange qr) = Some r \<and> edns0 (dns r) = Some e \<and>
           \<not> exclude_response_rcode (exclude_hints (config w))"
  then show "response_rcode (writeBasic_signature qr stats w) =
         Some (push_bit 4 (ucast (extended_rcode e)) OR ucast (rcode (dns r)))"
    by (simp add: writeBasic_signature_def basic_locals_def Let_def response_info_rcode
        add_extended_rcode_or split: option.split)
next
  assume "\<not> exclude_qr_signature (exclude_hints (config w))"
  then show "\<exists>i. signature (query_response (writeBasic qr stats w)) = Some i
           \<and> i < length (query_response_signatures (data (writeBasic qr stats w)))
           \<and> query_response_signatures (data (writeBasic qr stats w)) ! i =
               writeBasic_signature qr stats w"
    by (rule writeBasic_stores_signature)
qed

text \<open>A query with extended rcode 1 over base rcode 0, and its response with extended
  rcode 1 over base rcode 7, written as the first record of a block: the item refers to
  signature 0 of the block, which holds the rcodes 16 and 23.\<close>

theorem edns_rcode_composition_witness:
  "signature (query_response (writeBasic sample_transaction sample_statistics
       (new_writer sample_config False 0))) = Some 0
   \<and> query_rcode (query_response_signatures (data (writeBasic sample_transaction
       sample_statistics (new_writer sample_config False 0))) ! 0) = Some 16
   \<and> response_rcode (query_response_signatures (data (writeBasic sample_transaction
       sample_statistics (new_writer sample_config False 0))) ! 0) = Some 23"
proof -
  define w where "w = new_writer sample_config False 0"
  define d where "d = data (writeBasic sample_transaction sample_statistics w)"
  define sig where "sig = writeBasic_signature sample_transaction sample_statistics w"
  have q: "query_of (exchange sample_transaction) = Some sample_query \<and>
      edns0 (dns sample_query) = Some sample_opt \<and>
      \<not> exclude_query_rcode (exclude_hints (config w))"
    by (simp add: sample_defs new_writer_def w_def)
  have r: "response_of (exchange sample_transaction) = Some sample_response \<and>
      edns0 (dns sample_response) = Some sample_opt \<and>
      \<not> exclude_response_rcode (exclude_hints (config w))"
    by (simp add: sample_defs new_writer_def w_def)
  have x: "\<not> exclude_qr_signature (exclude_hints (config w))"
    by (simp add: w_def sample_writer_signatures)
  note th = edns_rcode_composition [of sample_transaction w sample_statistics]
  have first: "signature (query_response (writeBasic sample_transaction sample_statistics w))
      = Some 0"
    using writeBasic_first_signature(1) [OF x] by (simp add: w_def sample_writer_signatures)
  from th x obtain i where
    i: "signature (query_response (writeBasic sample_transaction sample_statistics w)) = Some i"
      "query_response_signatures d ! i = sig"
    unfolding d_def sig_def by blast
  from i first have stored: "query_response_signatures d ! 0 = sig" by simp
  have "query_rcode sig =
        Some (push_bit 4 (ucast (extended_rcode sample_opt)) OR ucast (rcode (dns sample_query)))"
    using th q unfolding sig_def by blast
  moreover have "response_rcode sig =
        Some (push_bit 4 (ucast (extended_rcode sample_opt)) OR ucast (rcode (dns sample_response)))"
    using th r unfolding sig_def by blast
  moreover have "(push_bit 4 (ucast (extended_rcode sample_opt)) OR ucast (rcode (dns sample_query)) :: 16 word) = 16"
    by (simp add: sample_defs)
  moreover have "(push_bit 4 (ucast (extended_rcode sample_opt)) OR ucast (rcode (dns sample_response)) :: 16 word) = 23"
    by (simp add: sample_defs)
  ultimately have "signature (query_response (writeBasic sample_transaction sample_statistics w))
        = Some 0
      \<and> query_rcode (query_response_signatures d ! 0) = Some 16
      \<and> response_rcode (query_response_signatures d ! 0) = Some 23"
    using first stored by simp
  then show ?thesis unfolding d_def w_def .
qed

text \<open>Claim C9. For a transaction with a response and no query, and
  \<^verbatim>\<open>query_opcode\<close> not excluded, the signature's \<^verbatim>\<open>query_opcode\<close> is the
  opcode of the response; when the transaction has a query, it is the opcode of the
  query, which the response does not overwrite; and this signature is the one that
  \<^verbatim>\<open>writeBasic\<close> interns in the block and whose index it stores in the item.\<close>

theorem query_opcode_from_response:
  "(\<forall>r. exchange qr = ResponseOnly r \<and> \<not> exclude_query_opcode (exclude_hints (config w)) \<longrightarrow>
       query_opcode (writeBasic_signature qr stats w) = Some (opcode (dns r)))
   \<and> (\<forall>q. query_of (exchange qr) = Some q \<and>
           \<not> exclude_query_opcode (exclude_hints (config w)) \<longrightarrow>
       query_opcode (writeBasic_signature qr stats w) = Some (opcode (dns q)))
   \<and> (\<not> exclude_qr_signature (exclude_hints (config w)) \<longrightarrow>
        (\<exists>i. signature (query_response (writeBasic qr stats w)) = Some i
           \<and> i < length (query_response_signatures (data (writeBasic qr stats w)))
           \<and> query_response_signatures (data (writeBasic qr stats w)) ! i =
               writeBasic_signature qr stats w))"
proof -
  have a: "(\<forall>r. exchange qr = ResponseOnly r \<and>
           \<not> exclude_query_opcode (exclude_hints (config w)) \<longrightarrow>
       query_opcode (writeBasic_signature qr stats w) = Some (opcode (dns r)))
   \<and> (\<forall>q. query_of (exchange qr) = Some q \<and>
           \<not> exclude_query_opcode (exclude_hints (config w)) \<longrightarrow>
       query_opcode (writeBasic_signature qr stats w) = Some (opcode (dns q)))"
    by (auto simp add: writeBasic_signature_def basic_locals_def Let_def query_info_counts
        response_info_counts empty_signature_def split: option.split)
  have b: "(\<not> exclude_qr_signature (exclude_hints (config w)) \<longrightarrow>
        (\<exists>i. signature (query_response (writeBasic qr stats w)) = Some i
           \<and> i < length (query_response_signatures (data (writeBasic qr stats w)))
           \<and> query_response_signatures (data (writeBasic qr stats w)) ! i =
               writeBasic_signature qr stats w))"
    using writeBasic_stores_signature [of w qr stats] by blast
  from a b show ?thesis by blast
qed

text \<open>The sample response alone (opcode 5), and the sample query (opcode 0) with that
  response, each written as the first record of a block: signature 0 of the block holds
  the opcode.\<close>

theorem query_opcode_from_response_witness:
  "signature (query_response (writeBasic sample_response_only sample_statistics
       (new_writer sample_config False 0))) = Some 0
   \<and> query_opcode (query_response_signatures (data (writeBasic sample_response_only
       sample_statistics (new_writer sample_config False 0))) ! 0) = Some 5
   \<and> query_opcode (query_response_signatures (data (writeBasic sample_transaction
       sample_statistics (new_writer sample_config False 0))) ! 0) = Some 0"
proof -
  define w where "w = new_writer sample_config False 0"
  have r: "exchange sample_response_only = ResponseOnly sample_response \<and>
      \<not> exclude_query_opcode (exclude_hints (config w))"
    by (simp add: sample_defs new_writer_def w_def)
  have q: "query_of (exchange sample_transaction) = Some sample_query \<and>
      \<not> exclude_query_opcode (exclude_hints (config w))"
    by (simp add: sample_defs new_writer_def w_def)
  have x: "\<not> exclude_qr_signature (exclude_hints (config w))"
    by (simp add: w_def sample_writer_signatures)
  have e: "query_response_signatures (data w) = []"
    by (simp add: w_def sample_writer_signatures)
  have first: "signature (query_response (writeBasic sample_response_only sample_statistics w))
      = Some 0"
    "signature (query_response (writeBasic sample_transaction sample_statistics w)) = Some 0"
    by (simp_all add: writeBasic_first_signature(1) [OF x e])
  note thr = query_opcode_from_response [of sample_response_only w sample_statistics]
  note thq = query_opcode_from_response [of sample_transaction w sample_statistics]
  from thr x obtain i where
    "signature (query_response (writeBasic sample_response_only sample_statistics w)) = Some i"
    "query_response_signatures (data (writeBasic sample_response_only sample_statistics w)) ! i
       = writeBasic_signature sample_response_only sample_statistics w"
    by blast
  with first have sr:
    "query_response_signatures (data (writeBasic sample_response_only sample_statistics w)) ! 0
       = writeBasic_signature sample_response_only sample_statistics w"
    by simp
  from thq x obtain j where
    "signature (query_response (writeBasic sample_transaction sample_statistics w)) = Some j"
    "query_response_signatures (data (writeBasic sample_transaction sample_statistics w)) ! j
       = writeBasic_signature sample_transaction sample_statistics w"
    by blast
  with first have sq:
    "query_response_signatures (data (writeBasic sample_transaction sample_statistics w)) ! 0
       = writeBasic_signature sample_transaction sample_statistics w"
    by simp
  have "query_opcode (writeBasic_signature sample_response_only sample_statistics w)
      = Some (opcode (dns sample_response))"
    using thr r by blast
  moreover have "query_opcode (writeBasic_signature sample_transaction sample_statistics w)
      = Some (opcode (dns sample_query))"
    using thq q by blast
  ultimately have "signature (query_response
        (writeBasic sample_response_only sample_statistics w)) = Some 0
      \<and> query_opcode (query_response_signatures
          (data (writeBasic sample_response_only sample_statistics w)) ! 0) = Some 5
      \<and> query_opcode (query_response_signatures
          (data (writeBasic sample_transaction sample_statistics w)) ! 0) = Some 0"
    using first sr sq by (simp add: sample_defs)
  then show ?thesis unfolding w_def .
qed

subsection \<open>A response without a query\<close>

lemma flag_powers:
  "HAS_QUERY = 2 ^ 0" "HAS_RESPONSE = 2 ^ 1" "QUERY_HAS_OPT = 2 ^ 2" "RESPONSE_HAS_OPT = 2 ^ 3"
  "QUERY_HAS_NO_QUESTION = 2 ^ 4" "RESPONSE_HAS_NO_QUESTION = 2 ^ 5"
  by (simp_all add: HAS_QUERY_def HAS_RESPONSE_def QUERY_HAS_OPT_def RESPONSE_HAS_OPT_def
      QUERY_HAS_NO_QUESTION_def RESPONSE_HAS_NO_QUESTION_def)

lemma bit4_flags:
  "\<not> bit HAS_QUERY 4" "\<not> bit HAS_RESPONSE 4" "\<not> bit QUERY_HAS_OPT 4"
  "\<not> bit RESPONSE_HAS_OPT 4" "bit QUERY_HAS_NO_QUESTION 4"
  "\<not> bit RESPONSE_HAS_NO_QUESTION 4"
  by (simp_all only: flag_powers bit_exp_iff) simp_all

lemma response_only_locals:
  assumes "exchange qr = ResponseOnly r"
  shows "basic_locals qr w =
     basic_flags (config w) (basic_response_info (config w) r
       (basic_first_question (config w) r (basic_item_info (config w) r
         (basic_signature_info (config w) qr r
            \<lparr>qri = (query_response w)\<lparr>qr_flags := 0\<rparr>, qs = empty_signature,
             blk = basic_times (config w) r (data w)\<rparr>))))"
  using assms by (simp add: basic_locals_def Let_def basic_delay_def)

lemma writeBasic_data:
  "data (writeBasic qr stats w) =
     blk (basic_intern (config w) (basic_locals qr (updateBlockStats stats w)))"
  "query_response (writeBasic qr stats w) =
     qri (basic_intern (config w) (basic_locals qr (updateBlockStats stats w)))"
  by (simp_all add: writeBasic_def Let_def)

text \<open>Claim C8. For a transaction with a response \<open>r\<close> and no query, after
  \<^verbatim>\<open>writeBasic\<close>: the item's timestamp, client port and transaction id, and the
  signature's server port and qdcount, are those of \<open>r\<close> (each unless excluded); the
  client and server address indices point at the masked addresses of \<open>r\<close> in the block's
  address table; the qname and classtype indices point at the name and the class/type of
  the first question of \<open>r\<close>; bit 4 of the item's flags,
  \<^verbatim>\<open>QUERY_HAS_NO_QUESTION\<close>, is set exactly when \<open>r\<close> has no question; and
  the signature spoken of is the one that \<^verbatim>\<open>writeBasic\<close> interns in the block
  and whose index it stores in the item.\<close>

theorem response_only_is_leading:
  fixes qr :: QueryResponse and w :: BlockCborWriter and stats :: PacketStatistics
  assumes ro: "exchange qr = ResponseOnly r"
  defines "ex \<equiv> exclude_hints (config w)"
    and "item \<equiv> query_response (writeBasic qr stats w)"
    and "sig \<equiv> writeBasic_signature qr stats w"
    and "d \<equiv> data (writeBasic qr stats w)"
  shows "(\<not> exclude_timestamp ex \<longrightarrow> tstamp item = Some (timestamp r))
     \<and> (\<forall>a. clientIP r = Some a \<and> \<not> exclude_client_address ex \<longrightarrow>
           (\<exists>i. client_address item = Some i \<and> i < length (ip_addresses d) \<and>
                ip_addresses d ! i = addr_to_string a (config w) True))
     \<and> (\<forall>a. serverIP r = Some a \<and> \<not> exclude_server_address ex \<longrightarrow>
           (\<exists>i. server_address sig = Some i \<and> i < length (ip_addresses d) \<and>
                ip_addresses d ! i = addr_to_string a (config w) False))
     \<and> (\<forall>p. clientPort r = Some p \<and> \<not> exclude_client_port ex \<longrightarrow> client_port item = Some p)
     \<and> (\<forall>p. serverPort r = Some p \<and> \<not> exclude_server_port ex \<longrightarrow> server_port sig = Some p)
     \<and> (\<not> exclude_transaction_id ex \<longrightarrow> transaction_id item = Some (dns_id (dns r)))
     \<and> (\<not> exclude_query_qdcount ex \<longrightarrow> qdcount sig = Some (questions_count (dns r)))
     \<and> (\<forall>q rest. queries (dns r) = q # rest \<and> \<not> exclude_query_name ex \<longrightarrow>
           (\<exists>i. qname item = Some i \<and> i < length (names_rdatas d) \<and>
                names_rdatas d ! i = dname q))
     \<and> (\<forall>q rest. queries (dns r) = q # rest \<and> \<not> exclude_query_class_type ex \<longrightarrow>
           (\<exists>i. query_classtype sig = Some i \<and> i < length (class_types d) \<and>
                class_types d ! i = \<lparr>qtype = query_type q, qclass = query_class q\<rparr>))
     \<and> (bit (qr_flags item) 4 \<longleftrightarrow> queries (dns r) = [])
     \<and> (\<not> exclude_qr_signature ex \<longrightarrow>
           (\<exists>i. signature item = Some i \<and> i < length (query_response_signatures d) \<and>
                query_response_signatures d ! i = sig))"
proof -
  let ?w1 = "updateBlockStats stats w"
  have lk: "\<not> exclude_qr_signature ex \<longrightarrow>
           (\<exists>i. signature item = Some i \<and> i < length (query_response_signatures d) \<and>
                query_response_signatures d ! i = sig)"
    unfolding ex_def item_def d_def sig_def
    using writeBasic_stores_signature [of w qr stats] by blast
  have loc: "basic_locals qr ?w1 =
     basic_flags (config w) (basic_response_info (config w) r
       (basic_first_question (config w) r (basic_item_info (config w) r
         (basic_signature_info (config w) qr r
            \<lparr>qri = (query_response w)\<lparr>qr_flags := 0\<rparr>, qs = empty_signature,
             blk = basic_times (config w) r (data ?w1)\<rparr>))))"
    using response_only_locals [OF ro, of ?w1] by simp
  have t: "\<not> exclude_timestamp ex \<longrightarrow> tstamp item = Some (timestamp r)"
    by (simp add: item_def ex_def writeBasic_data loc)
  have cp: "\<forall>p. clientPort r = Some p \<and> \<not> exclude_client_port ex \<longrightarrow> client_port item = Some p"
    by (simp add: item_def ex_def writeBasic_data loc)
  have sp: "\<forall>p. serverPort r = Some p \<and> \<not> exclude_server_port ex \<longrightarrow> server_port sig = Some p"
    by (simp add: sig_def ex_def writeBasic_signature_def loc)
  have ti: "\<not> exclude_transaction_id ex \<longrightarrow> transaction_id item = Some (dns_id (dns r))"
    by (simp add: item_def ex_def writeBasic_data loc)
  have qd: "\<not> exclude_query_qdcount ex \<longrightarrow> qdcount sig = Some (questions_count (dns r))"
    by (simp add: sig_def ex_def writeBasic_signature_def loc)
  have fl: "bit (qr_flags item) 4 \<longleftrightarrow> queries (dns r) = []"
    by (simp add: item_def writeBasic_data loc response_info_flags bit_or_iff bit4_flags
        split: option.split)
  have ca: "\<forall>a. clientIP r = Some a \<and> \<not> exclude_client_address ex \<longrightarrow>
           (\<exists>i. client_address item = Some i \<and> i < length (ip_addresses d) \<and>
                ip_addresses d ! i = addr_to_string a (config w) True)"
    by (simp add: item_def d_def ex_def writeBasic_data loc intern_lookup)
  have sa: "\<forall>a. serverIP r = Some a \<and> \<not> exclude_server_address ex \<longrightarrow>
           (\<exists>i. server_address sig = Some i \<and> i < length (ip_addresses d) \<and>
                ip_addresses d ! i = addr_to_string a (config w) False)"
  proof (intro allI impI)
    fix a
    assume a: "serverIP r = Some a \<and> \<not> exclude_server_address ex"
    let ?t0 = "ip_addresses (data w)"
    let ?sa = "addr_to_string a (config w) False"
    let ?i = "fst (intern ?sa ?t0)"
    let ?t1 = "snd (intern ?sa ?t0)"
    have i1: "?i < length ?t1 \<and> ?t1 ! ?i = ?sa" by (rule intern_lookup)
    have sig: "server_address sig = Some ?i"
      using a by (simp add: sig_def ex_def writeBasic_signature_def loc)
    have tbl: "ip_addresses d = (case clientIP r of
          Some c \<Rightarrow> if \<not> exclude_client_address ex
                    then snd (intern (addr_to_string c (config w) True) ?t1) else ?t1
        | None \<Rightarrow> ?t1)"
      using a by (simp add: d_def ex_def writeBasic_data loc split: option.split)
    have "?i < length (ip_addresses d) \<and> ip_addresses d ! ?i = ?sa"
      using i1 intern_keeps [of ?i ?t1] intern_length [of ?t1]
      by (auto simp add: tbl split: option.split intro: less_le_trans)
    with sig show "\<exists>i. server_address sig = Some i \<and> i < length (ip_addresses d) \<and>
                ip_addresses d ! i = ?sa" by blast
  qed
  have qn: "\<forall>q rest. queries (dns r) = q # rest \<and> \<not> exclude_query_name ex \<longrightarrow>
           (\<exists>i. qname item = Some i \<and> i < length (names_rdatas d) \<and>
                names_rdatas d ! i = dname q)"
    by (simp add: item_def d_def ex_def writeBasic_data loc intern_lookup)
  have ct: "\<forall>q rest. queries (dns r) = q # rest \<and> \<not> exclude_query_class_type ex \<longrightarrow>
           (\<exists>i. query_classtype sig = Some i \<and> i < length (class_types d) \<and>
                class_types d ! i = \<lparr>qtype = query_type q, qclass = query_class q\<rparr>)"
    by (simp add: sig_def d_def ex_def writeBasic_data writeBasic_signature_def loc intern_lookup)
  from t ca sa cp sp ti qd qn ct fl lk show ?thesis by blast
qed


text \<open>The sample response written alone, with no hint set.\<close>

theorem response_only_is_leading_witness:
  "tstamp (query_response (writeBasic sample_response_only sample_statistics
       (new_writer sample_config False 0))) = Some 6000
   \<and> client_port (query_response (writeBasic sample_response_only sample_statistics
       (new_writer sample_config False 0))) = Some 40000
   \<and> transaction_id (query_response (writeBasic sample_response_only sample_statistics
       (new_writer sample_config False 0))) = Some 4660
   \<and> qdcount (writeBasic_signature sample_response_only sample_statistics
       (new_writer sample_config False 0)) = Some 1
   \<and> \<not> bit (qr_flags (query_response (writeBasic sample_response_only sample_statistics
       (new_writer sample_config False 0)))) 4
   \<and> signature (query_response (writeBasic sample_response_only sample_statistics
       (new_writer sample_config False 0))) = Some 0
   \<and> qdcount (query_response_signatures (data (writeBasic sample_response_only
       sample_statistics (new_writer sample_config False 0))) ! 0) = Some 1"
proof -
  let ?w = "new_writer sample_config False 0"
  have ro: "exchange sample_response_only = ResponseOnly sample_response"
    by (simp add: sample_defs)
  note th = response_only_is_leading [OF ro, of ?w sample_statistics]
  have ex: "exclude_hints (config ?w) = no_exclusions"
    by (simp add: new_writer_def sample_config_def)
  have "tstamp (query_response (writeBasic sample_response_only sample_statistics ?w))
      = Some (timestamp sample_response)"
    using th by (simp add: ex no_exclusions_def)
  moreover have "client_port (query_response (writeBasic sample_response_only sample_statistics ?w))
      = clientPort sample_response"
    using th by (simp add: ex no_exclusions_def sample_response_def)
  moreover have "transaction_id (query_response (writeBasic sample_response_only sample_statistics ?w))
      = Some (dns_id (dns sample_response))"
    using th by (simp add: ex no_exclusions_def)
  moreover have "qdcount (writeBasic_signature sample_response_only sample_statistics ?w)
      = Some (questions_count (dns sample_response))"
    using th by (simp add: ex no_exclusions_def)
  moreover have "\<not> bit (qr_flags (query_response
      (writeBasic sample_response_only sample_statistics ?w))) 4"
    using th by (simp add: sample_response_def)
  moreover have first: "signature (query_response
      (writeBasic sample_response_only sample_statistics ?w)) = Some 0"
    by (simp add: writeBasic_first_signature(1) sample_writer_signatures)
  moreover have "query_response_signatures
      (data (writeBasic sample_response_only sample_statistics ?w)) ! 0 =
      writeBasic_signature sample_response_only sample_statistics ?w"
  proof -
    have x: "\<not> exclude_qr_signature (exclude_hints (config ?w))"
      by (simp add: ex no_exclusions_def)
    from th x have "\<exists>i. signature (query_response
          (writeBasic sample_response_only sample_statistics ?w)) = Some i \<and>
        query_response_signatures
          (data (writeBasic sample_response_only sample_statistics ?w)) ! i =
        writeBasic_signature sample_response_only sample_statistics ?w"
      by blast
    with first show ?thesis by auto
  qed
  ultimately show ?thesis by (simp add: sample_response_def)
qed

subsection \<open>The encoder calls of each operation\<close>

lemma blocks_of_append: "blocks_of (xs @ ys) = blocks_of xs @ blocks_of ys"
  by (induction xs rule: blocks_of.induct) simp_all

lemma writeBlock_simps [simp]:
  "config (writeBlock w) = config w"
  "live (writeBlock w) = live w"
  "query_response (writeBlock w) = query_response w"
  "is_open (enc (writeBlock w)) = is_open (enc w)"
  "calls (enc (writeBlock w)) =
     calls (enc w) @ [WriteBlock ((data w)\<lparr>last_packet_statistics := last_end_block_statistics w\<rparr>)]"
  "data (writeBlock w) = empty_block"
  "need_start_block_stats (writeBlock w) = True"
  "last_end_block_statistics (writeBlock w) = last_end_block_statistics w"
  by (simp_all add: writeBlock_def Let_def enc_write_def clear_def)

lemma writeBlock_flushed [simp]:
  "flushed_blocks (writeBlock w) =
     flushed_blocks w @ [(data w)\<lparr>last_packet_statistics := last_end_block_statistics w\<rparr>]"
  by (simp add: flushed_blocks_def blocks_of_append)

lemma writeFileFooter_simps [simp]:
  "config (writeFileFooter w) = config w"
  "live (writeFileFooter w) = live w"
  "query_response (writeFileFooter w) = query_response w"
  "is_open (enc (writeFileFooter w)) = is_open (enc w)"
  "calls (enc (writeFileFooter w)) = calls (enc w) @ [WriteBreak]"
  "data (writeFileFooter w) = data w"
  "need_start_block_stats (writeFileFooter w) = need_start_block_stats w"
  "last_end_block_statistics (writeFileFooter w) = last_end_block_statistics w"
  by (simp_all add: writeFileFooter_def enc_write_def)

lemma writeFileHeader_simps [simp]:
  "config (writeFileHeader w) = config w"
  "live (writeFileHeader w) = live w"
  "query_response (writeFileHeader w) = query_response w"
  "is_open (enc (writeFileHeader w)) = is_open (enc w)"
  "calls (enc (writeFileHeader w)) = calls (enc w) @ file_header"
  "data (writeFileHeader w) = data w"
  "need_start_block_stats (writeFileHeader w) = need_start_block_stats w"
  "last_end_block_statistics (writeFileHeader w) = last_end_block_statistics w"
  by (simp_all add: writeFileHeader_def writeBlockParameters_def Let_def enc_write_def
      file_header_def)

lemma blocks_of_file_header [simp]: "blocks_of file_header = []"
  by (simp add: file_header_def)

lemma close_simps [simp]:
  "config (close now w) = config w"
  "live (close now w) = live w"
  "query_response (close now w) = query_response w"
  "is_open (enc (close now w)) = False"
  "calls (enc (close now w)) =
     (if is_open (enc w)
      then calls (enc w) @ [WriteBlock (closing_block now w), WriteBreak, CloseFile]
      else calls (enc w))"
  "data (close now w) = (if is_open (enc w) then empty_block else data w)"
  "need_start_block_stats (close now w) = (is_open (enc w) \<or> need_start_block_stats w)"
  "last_end_block_statistics (close now w) = last_end_block_statistics w"
  by (simp_all add: close_def Let_def enc_close_def closing_block_def)


lemma startRecord_simps [simp]:
  "config (startRecord qr w) = config w"
  "live (startRecord qr w) = live w"
  "query_response (startRecord qr w) = empty_item"
  "is_open (enc (startRecord qr w)) = is_open (enc w)"
  "calls (enc (startRecord qr w)) =
     (if is_full (config w) (data w)
      then calls (enc w) @
           [WriteBlock ((data w)\<lparr>end_time := Some (timestamp (leading (exchange qr))),
                                 last_packet_statistics := last_end_block_statistics w\<rparr>)]
      else calls (enc w))"
  "data (startRecord qr w) =
     (if is_full (config w) (data w)
      then empty_block\<lparr>start_time := Some (timestamp (leading (exchange qr)))\<rparr>
      else data w)"
  "need_start_block_stats (startRecord qr w) =
     (is_full (config w) (data w) \<or> need_start_block_stats w)"
  "last_end_block_statistics (startRecord qr w) = last_end_block_statistics w"
  by (simp_all add: startRecord_def Let_def)

lemma endRecord_simps [simp]:
  "config (endRecord w) = config w"
  "live (endRecord w) = live w"
  "query_response (endRecord w) = empty_item"
  "enc (endRecord w) = enc w"
  "data (endRecord w) =
     (data w)\<lparr>query_response_items := query_response_items (data w) @ [query_response w]\<rparr>"
  "need_start_block_stats (endRecord w) = need_start_block_stats w"
  "last_end_block_statistics (endRecord w) = last_end_block_statistics w"
  by (simp_all add: endRecord_def)

lemma count_address_event_frame [simp]:
  "start_packet_statistics (count_address_event ty code a v6 d) = start_packet_statistics d"
  "last_packet_statistics (count_address_event ty code a v6 d) = last_packet_statistics d"
  "query_response_items (count_address_event ty code a v6 d) = query_response_items d"
  "earliest_time (count_address_event ty code a v6 d) = earliest_time d"
  "start_time (count_address_event ty code a v6 d) = start_time d"
  "end_time (count_address_event ty code a v6 d) = end_time d"
  by (simp_all add: count_address_event_def case_prod_beta)

lemma writeAE_simps [simp]:
  "config (writeAE ae stats w) = config w"
  "live (writeAE ae stats w) = live w"
  "query_response (writeAE ae stats w) = query_response w"
  "enc (writeAE ae stats w) = enc w"
  "need_start_block_stats (writeAE ae stats w) = False"
  "last_end_block_statistics (writeAE ae stats w) = stats"
  "start_packet_statistics (data (writeAE ae stats w)) =
     (if need_start_block_stats w then last_end_block_statistics w
      else start_packet_statistics (data w))"
  "last_packet_statistics (data (writeAE ae stats w)) = last_packet_statistics (data w)"
  "query_response_items (data (writeAE ae stats w)) = query_response_items (data w)"
  "earliest_time (data (writeAE ae stats w)) = earliest_time (data w)"
  "start_time (data (writeAE ae stats w)) = start_time (data w)"
  "end_time (data (writeAE ae stats w)) = end_time (data w)"
  by (simp_all add: writeAE_def Let_def updateBlockStats_def)

lemma checkForRotation_simps [simp]:
  "config (checkForRotation ts due now w) = config w"
  "live (checkForRotation ts due now w) = live w"
  "query_response (checkForRotation ts due now w) = query_response w"
  "is_open (enc (checkForRotation ts due now w)) = True"
  "calls (enc (checkForRotation ts due now w)) =
     (if is_open (enc w)
      then (if due
            then calls (enc w) @
                 [WriteBlock ((data w)\<lparr>end_time := Some ts,
                                last_packet_statistics := last_end_block_statistics w\<rparr>),
                  WriteBreak, CloseFile, OpenFile] @ file_header
            else calls (enc w))
      else calls (enc w) @ [OpenFile] @ file_header)"
  "data (checkForRotation ts due now w) =
     (if is_open (enc w) \<and> due then empty_block\<lparr>start_time := Some ts\<rparr> else data w)"
  "need_start_block_stats (checkForRotation ts due now w) =
     ((is_open (enc w) \<and> due) \<or> need_start_block_stats w)"
  "last_end_block_statistics (checkForRotation ts due now w) = last_end_block_statistics w"
  by (simp_all add: checkForRotation_def Let_def enc_open_def closing_block_def)

lemma write_record_simps [simp]:
  "config (write_record qr stats w) = config w"
  "live (write_record qr stats w) = live w"
  "query_response (write_record qr stats w) = empty_item"
  "is_open (enc (write_record qr stats w)) = is_open (enc w)"
  "calls (enc (write_record qr stats w)) = calls (enc (startRecord qr w))"
  "need_start_block_stats (write_record qr stats w) = False"
  "last_end_block_statistics (write_record qr stats w) = stats"
  "last_packet_statistics (data (write_record qr stats w)) =
     last_packet_statistics (data (startRecord qr w))"
  "address_event_counts (data (write_record qr stats w)) =
     address_event_counts (data (startRecord qr w))"
  by (simp_all add: write_record_def)

subsection \<open>Block capacity\<close>

lemma write_record_items:
  "query_response_items (data (write_record qr stats w)) =
     (if is_full (config w) (data w) then [] else query_response_items (data w))
       @ [query_response (writeBasic qr stats (startRecord qr w))]"
  by (simp add: write_record_def empty_block_def)

text \<open>Claim C4. When \<^verbatim>\<open>startRecord\<close> finds the block full (its items have
  reached \<^verbatim>\<open>max_block_items\<close>), it hands exactly one block to the encoder: the
  block with \<^verbatim>\<open>end_time\<close> set to the leading timestamp of the incoming record
  (the query's if there is a query, else the response's); the block is cleared and the
  new block's \<^verbatim>\<open>start_time\<close> is that timestamp. When the block is not full,
  the encoder receives nothing and the block is unchanged.\<close>

theorem start_record_flushes_full_block:
  fixes qr :: QueryResponse and w :: BlockCborWriter
  defines "T \<equiv> timestamp (leading (exchange qr))"
  shows "(is_full (config w) (data w) \<longleftrightarrow>
            max_block_items (config w) \<le> length (query_response_items (data w)))
     \<and> T = (case exchange qr of QueryOnly q \<Rightarrow> timestamp q | ResponseOnly r \<Rightarrow> timestamp r
             | QueryAndResponse q r \<Rightarrow> timestamp q)
     \<and> (is_full (config w) (data w) \<longrightarrow>
          calls (enc (startRecord qr w)) =
            calls (enc w) @
              [WriteBlock ((data w)\<lparr>end_time := Some T,
                  last_packet_statistics := last_end_block_statistics w\<rparr>)]
          \<and> flushed_blocks (startRecord qr w) =
            flushed_blocks w @
              [(data w)\<lparr>end_time := Some T,
                  last_packet_statistics := last_end_block_statistics w\<rparr>]
          \<and> data (startRecord qr w) = empty_block\<lparr>start_time := Some T\<rparr>
          \<and> query_response_items (data (startRecord qr w)) = []
          \<and> start_time (data (startRecord qr w)) = Some T)
     \<and> (\<not> is_full (config w) (data w) \<longrightarrow>
          calls (enc (startRecord qr w)) = calls (enc w)
          \<and> flushed_blocks (startRecord qr w) = flushed_blocks w
          \<and> data (startRecord qr w) = data w)"
  by (cases "exchange qr")
     (simp_all add: T_def is_full_def flushed_blocks_def blocks_of_append empty_block_def)

text \<open>Two sample records fill a block of two items; the third record starts at 6000.\<close>

theorem start_record_flushes_full_block_witness:
  "length (flushed_blocks (startRecord sample_response_only
       (write_record sample_transaction sample_statistics
         (write_record sample_query_only sample_statistics
           (new_writer sample_config False 0))))) = 1
   \<and> end_time (last (flushed_blocks (startRecord sample_response_only
       (write_record sample_transaction sample_statistics
         (write_record sample_query_only sample_statistics
           (new_writer sample_config False 0)))))) = Some 6000
   \<and> start_time (data (startRecord sample_response_only
       (write_record sample_transaction sample_statistics
         (write_record sample_query_only sample_statistics
           (new_writer sample_config False 0))))) = Some 6000"
proof -
  define w0 where "w0 = new_writer sample_config False 0"
  define w1 where "w1 = write_record sample_query_only sample_statistics w0"
  define w2 where "w2 = write_record sample_transaction sample_statistics w1"
  have cfg: "max_block_items (config w0) = 2" "config w1 = config w0" "config w2 = config w0"
    by (simp_all add: w0_def w1_def w2_def new_writer_def sample_config_def)
  have n0: "query_response_items (data w0) = []" and e0: "calls (enc w0) = []"
    by (simp_all add: w0_def new_writer_def empty_block_def)
  have f0: "\<not> is_full (config w0) (data w0)"
    by (simp add: is_full_def cfg n0)
  have n1: "length (query_response_items (data w1)) = 1" and e1: "calls (enc w1) = []"
    unfolding w1_def by (simp_all add: write_record_items f0 n0 e0)
  have f1: "\<not> is_full (config w1) (data w1)"
    by (simp add: is_full_def cfg n1)
  have n2: "length (query_response_items (data w2)) = 2" and e2: "calls (enc w2) = []"
    unfolding w2_def by (simp_all add: write_record_items f1 n1 e1)
  have f2: "is_full (config w2) (data w2)"
    by (simp add: is_full_def cfg n2)
  have c0: "flushed_blocks w2 = []"
    by (simp add: flushed_blocks_def e2)
  have t: "timestamp (leading (exchange sample_response_only)) = 6000"
    by (simp add: sample_response_only_def sample_response_def)
  have "length (flushed_blocks (startRecord sample_response_only w2)) = 1
      \<and> end_time (last (flushed_blocks (startRecord sample_response_only w2))) = Some 6000
      \<and> start_time (data (startRecord sample_response_only w2)) = Some 6000"
    using start_record_flushes_full_block [of w2 sample_response_only] f2
    by (simp add: c0 t)
  then show ?thesis by (simp only: w2_def w1_def w0_def)
qed

subsection \<open>Closing a file\<close>

lemma file_blocks_header:
  "file_blocks ([OpenFile] @ file_header @ cs) =
     WriteArrayHeaderIndefinite # takeWhile (\<lambda>c. c \<noteq> CloseFile) cs"
  by (simp add: file_blocks_def file_header_def)

lemma new_writer_simps [simp]:
  "config (new_writer cfg lv now) = cfg"
  "live (new_writer cfg lv now) = lv"
  "is_open (enc (new_writer cfg lv now)) = False"
  "calls (enc (new_writer cfg lv now)) = []"
  "need_start_block_stats (new_writer cfg lv now) = True"
  "last_end_block_statistics (new_writer cfg lv now) = zero_statistics"
  "query_response (new_writer cfg lv now) = empty_item"
  "data (new_writer cfg lv now) =
     (if lv then empty_block\<lparr>start_time := Some now\<rparr> else empty_block)"
  by (simp_all add: new_writer_def)

text \<open>Claim C7, as the code has it. A file that is opened and closed at once holds,
  between the indefinite-length array header and the break, the one block that
  \<^verbatim>\<open>close\<close> hands to the serializer: the block in progress, which has no item
  and no address event. Its array of blocks is the byte \<^verbatim>\<open>0x9f\<close>, the bytes of
  that block and the byte \<^verbatim>\<open>0xff\<close>; it is the two bytes
  \<^verbatim>\<open>0x9f 0xff\<close> exactly when the serializer emits nothing for that block. Every
  open file is closed by the whole block in progress, one break written by the footer,
  and the closing of the file, in this order; closing a closed writer does nothing.\<close>

theorem close_writes_block_then_footer:
  fixes cfg :: Configuration and w :: BlockCborWriter and wc :: "BlockData \<Rightarrow> byte_string"
    and lv due :: bool and born opened closed ts now :: time_point
  defines "fresh \<equiv> new_writer cfg lv born"
  defines "shut \<equiv> close closed (checkForRotation ts due opened fresh)"
  shows "file_blocks (calls (enc shut)) =
           [WriteArrayHeaderIndefinite, WriteBlock (closing_block closed fresh), WriteBreak]
     \<and> query_response_items (closing_block closed fresh) = []
     \<and> address_event_counts (closing_block closed fresh) = []
     \<and> blocks_bytes wc (calls (enc shut)) = [0x9f] @ wc (closing_block closed fresh) @ [0xff]
     \<and> (blocks_bytes wc (calls (enc shut)) = [0x9f, 0xff] \<longleftrightarrow> wc (closing_block closed fresh) = [])
     \<and> (is_open (enc w) \<longrightarrow>
          calls (enc (close now w)) =
            calls (enc w) @ [WriteBlock (closing_block now w), WriteBreak, CloseFile])
     \<and> (\<not> is_open (enc w) \<longrightarrow> close now w = w)"
proof -
  have cb: "closing_block closed (checkForRotation ts due opened fresh) = closing_block closed fresh"
    by (simp add: closing_block_def fresh_def)
  have c: "calls (enc shut) =
      [OpenFile] @ file_header @ [WriteBlock (closing_block closed fresh), WriteBreak, CloseFile]"
    by (simp add: shut_def cb) (simp add: fresh_def)
  have fb: "file_blocks (calls (enc shut)) =
           [WriteArrayHeaderIndefinite, WriteBlock (closing_block closed fresh), WriteBreak]"
    by (simp only: c file_blocks_header) simp
  have e: "query_response_items (closing_block closed fresh) = []"
      "address_event_counts (closing_block closed fresh) = []"
    by (simp_all add: closing_block_def fresh_def empty_block_def)
  have b: "blocks_bytes wc (calls (enc shut)) = [0x9f] @ wc (closing_block closed fresh) @ [0xff]"
    by (simp add: blocks_bytes_def fb)
  have b2: "blocks_bytes wc (calls (enc shut)) = [0x9f, 0xff] \<longleftrightarrow> wc (closing_block closed fresh) = []"
    by (simp add: b)
  have g: "is_open (enc w) \<longrightarrow>
          calls (enc (close now w)) =
            calls (enc w) @ [WriteBlock (closing_block now w), WriteBreak, CloseFile]"
    by simp
  have h: "\<not> is_open (enc w) \<longrightarrow> close now w = w"
    by (simp add: close_def)
  from fb e b b2 g h show ?thesis by blast
qed


text \<open>A writer that has just opened its first file is closed: the footer follows the
  block in progress; and under a serializer that emits nothing, the array of blocks is
  the two bytes.\<close>

theorem close_writes_block_then_footer_witness:
  "blocks_bytes (\<lambda>b. [])
     (calls (enc (close 0 (checkForRotation 0 False 0 (new_writer sample_config False 0)))))
     = [0x9f, 0xff]
   \<and> calls (enc (close 9 (checkForRotation 0 False 0 (new_writer sample_config False 0)))) =
       calls (enc (checkForRotation 0 False 0 (new_writer sample_config False 0))) @
         [WriteBlock (closing_block 9 (checkForRotation 0 False 0
            (new_writer sample_config False 0))), WriteBreak, CloseFile]"
proof -
  define w1 where "w1 = checkForRotation 0 False 0 (new_writer sample_config False 0)"
  have o: "is_open (enc w1)" by (simp add: w1_def)
  note th = close_writes_block_then_footer
      [where wc = "\<lambda>b. []" and cfg = sample_config and lv = False and born = 0
         and ts = 0 and due = False and opened = 0 and closed = 0 and w = w1 and now = 9]
  have a: "blocks_bytes (\<lambda>b. []) (calls (enc (close 0 w1))) = [0x9f, 0xff]"
    using th by (simp add: w1_def)
  have b: "calls (enc (close 9 w1)) =
      calls (enc w1) @ [WriteBlock (closing_block 9 w1), WriteBreak, CloseFile]"
    using th o by blast
  from a b show ?thesis by (simp only: w1_def)
qed

text \<open>Claim C7 as stated, at a writer that opens its first file and is closed at once:
  the array of blocks of the file is not empty. \<^verbatim>\<open>close\<close> has handed the empty
  block in progress to the serializer between the array header and the break.\<close>

theorem empty_file_holds_a_block:
  "file_blocks
     (calls (enc (close 0 (checkForRotation 0 False 0 (new_writer sample_config False 0)))))
     = [WriteArrayHeaderIndefinite, WriteBlock empty_block, WriteBreak]
   \<and> blocks_of (file_blocks
     (calls (enc (close 0 (checkForRotation 0 False 0 (new_writer sample_config False 0))))))
     \<noteq> []"
proof -
  have cb: "closing_block 0 (new_writer sample_config False 0) = empty_block"
    by (simp add: closing_block_def empty_block_def)
  have "calls (enc (close 0 (checkForRotation 0 False 0 (new_writer sample_config False 0))))
      = [OpenFile] @ file_header @ [WriteBlock empty_block, WriteBreak, CloseFile]"
    by (simp add: closing_block_def empty_block_def)
  then show ?thesis
    by (simp only: file_blocks_header) simp
qed

subsection \<open>The blocks flushed by each operation\<close>

lemma flushed_simps [simp]:
  "flushed_blocks (new_writer cfg lv now) = []"
  "flushed_blocks (updateBlockStats stats w) = flushed_blocks w"
  "flushed_blocks (writeBasic qr stats w) = flushed_blocks w"
  "flushed_blocks (endRecord w) = flushed_blocks w"
  "flushed_blocks (writeAE ae stats w) = flushed_blocks w"
  "flushed_blocks (startRecord qr w) =
     (if is_full (config w) (data w)
      then flushed_blocks w @
           [(data w)\<lparr>end_time := Some (timestamp (leading (exchange qr))),
                     last_packet_statistics := last_end_block_statistics w\<rparr>]
      else flushed_blocks w)"
  "flushed_blocks (close now w) =
     (if is_open (enc w) then flushed_blocks w @ [closing_block now w] else flushed_blocks w)"
  "flushed_blocks (checkForRotation ts due now w) =
     (if is_open (enc w) \<and> due
      then flushed_blocks w @
           [(data w)\<lparr>end_time := Some ts,
                     last_packet_statistics := last_end_block_statistics w\<rparr>]
      else flushed_blocks w)"
  by (simp_all add: flushed_blocks_def blocks_of_append)

lemma write_record_flushed [simp]:
  "flushed_blocks (write_record qr stats w) = flushed_blocks (startRecord qr w)"
  by (simp add: write_record_def)

lemma windowed_snoc:
  "windowed (bs @ [b]) \<longleftrightarrow>
     windowed bs \<and>
     (bs \<noteq> [] \<and> has_content b \<longrightarrow>
        start_packet_statistics b = last_packet_statistics (last bs))"
proof
  assume w: "windowed (bs @ [b])"
  have "windowed bs"
    unfolding windowed_def
  proof (intro allI impI)
    fix i assume a: "Suc i < length bs \<and> has_content (bs ! Suc i)"
    then have "Suc i < length (bs @ [b]) \<and> has_content ((bs @ [b]) ! Suc i)"
      by (simp add: nth_append)
    with w have "start_packet_statistics ((bs @ [b]) ! Suc i) =
        last_packet_statistics ((bs @ [b]) ! i)"
      unfolding windowed_def by blast
    with a show "start_packet_statistics (bs ! Suc i) = last_packet_statistics (bs ! i)"
      by (simp add: nth_append)
  qed
  moreover have "bs \<noteq> [] \<and> has_content b \<longrightarrow>
        start_packet_statistics b = last_packet_statistics (last bs)"
  proof
    assume a: "bs \<noteq> [] \<and> has_content b"
    then obtain n where n: "length bs = Suc n" by (cases bs) auto
    then have "Suc n < length (bs @ [b]) \<and> has_content ((bs @ [b]) ! Suc n)"
      using a by (simp add: nth_append)
    with w have "start_packet_statistics ((bs @ [b]) ! Suc n) =
        last_packet_statistics ((bs @ [b]) ! n)"
      unfolding windowed_def by blast
    then show "start_packet_statistics b = last_packet_statistics (last bs)"
      using n a by (simp add: nth_append last_conv_nth)
  qed
  ultimately show "windowed bs \<and>
     (bs \<noteq> [] \<and> has_content b \<longrightarrow>
        start_packet_statistics b = last_packet_statistics (last bs))" ..
next
  assume r: "windowed bs \<and>
     (bs \<noteq> [] \<and> has_content b \<longrightarrow>
        start_packet_statistics b = last_packet_statistics (last bs))"
  show "windowed (bs @ [b])"
    unfolding windowed_def
  proof (intro allI impI)
    fix i assume a: "Suc i < length (bs @ [b]) \<and> has_content ((bs @ [b]) ! Suc i)"
    show "start_packet_statistics ((bs @ [b]) ! Suc i) = last_packet_statistics ((bs @ [b]) ! i)"
    proof (cases "Suc i < length bs")
      case True
      with a r show ?thesis
        unfolding windowed_def by (simp add: nth_append)
    next
      case False
      with a have i: "length bs = Suc i" by simp
      then have ne: "bs \<noteq> []" by auto
      from i a have "has_content b" by (simp add: nth_append)
      with r ne have "start_packet_statistics b = last_packet_statistics (last bs)" by blast
      then show ?thesis
        using i ne by (simp add: nth_append last_conv_nth)
    qed
  qed
qed


subsection \<open>The statistics window is kept by every operation\<close>

lemma has_content_simps [simp]:
  "\<not> has_content empty_block"
  "\<not> has_content (empty_block\<lparr>start_time := t\<rparr>)"
  "has_content (b\<lparr>end_time := e\<rparr>) = has_content b"
  "has_content (b\<lparr>last_packet_statistics := s\<rparr>) = has_content b"
  "has_content (b\<lparr>end_time := e, last_packet_statistics := s\<rparr>) = has_content b"
  "has_content (data (writeBasic qr stats w)) = has_content (data w)"
  "has_content (closing_block now w) = has_content (data w)"
  by (simp_all add: has_content_def empty_block_def closing_block_def)

lemma closing_block_statistics [simp]:
  "start_packet_statistics (closing_block now w) = start_packet_statistics (data w)"
  "last_packet_statistics (closing_block now w) = last_end_block_statistics w"
  by (simp_all add: closing_block_def)

lemma window_inv_new: "window_inv (new_writer cfg lv now)"
  by (simp add: window_inv_def windowed_def)

text \<open>A flush: the block in progress, with its last counters filled in, joins the
  flushed blocks, and the flag is armed.\<close>

lemma window_inv_flush:
  assumes inv: "window_inv w"
    and fl: "flushed_blocks w' = flushed_blocks w @ [b]"
    and b: "start_packet_statistics b = start_packet_statistics (data w)"
      "last_packet_statistics b = last_end_block_statistics w"
      "has_content b = has_content (data w)"
    and w': "need_start_block_stats w'" "last_end_block_statistics w' = last_end_block_statistics w"
      "\<not> has_content (data w')"
  shows "window_inv w'"
proof -
  have "flushed_blocks w \<noteq> [] \<and> has_content b \<longrightarrow>
      start_packet_statistics b = last_packet_statistics (last (flushed_blocks w))"
    using inv b by (auto simp add: window_inv_def)
  with inv have "windowed (flushed_blocks w')"
    by (simp add: fl windowed_snoc window_inv_def)
  then show ?thesis
    using w' b by (simp add: window_inv_def fl)
qed

text \<open>An update of the counters, as \<^verbatim>\<open>updateBlockStats\<close> makes it.\<close>

lemma window_inv_update:
  assumes inv: "window_inv w"
    and fl: "flushed_blocks w' = flushed_blocks w"
    and w': "\<not> need_start_block_stats w'"
      "start_packet_statistics (data w') =
         (if need_start_block_stats w then last_end_block_statistics w
          else start_packet_statistics (data w))"
  shows "window_inv w'"
  using inv w' by (auto simp add: window_inv_def fl split: if_splits)

lemma window_inv_startRecord: "window_inv w \<Longrightarrow> window_inv (startRecord qr w)"
proof (cases "is_full (config w) (data w)")
  case True
  assume "window_inv w"
  then show ?thesis
    by (rule window_inv_flush
          [where b = "(data w)\<lparr>end_time := Some (timestamp (leading (exchange qr))),
                     last_packet_statistics := last_end_block_statistics w\<rparr>"])
       (simp_all add: True)
next
  case False
  assume "window_inv w"
  then show ?thesis
    by (simp add: window_inv_def False)
qed

lemma window_inv_writeBasic: "window_inv w \<Longrightarrow> window_inv (writeBasic qr stats w)"
  by (erule window_inv_update) simp_all

lemma window_inv_writeAE: "window_inv w \<Longrightarrow> window_inv (writeAE ae stats w)"
  by (erule window_inv_update) simp_all

lemma window_inv_endRecord:
  "window_inv w \<Longrightarrow> \<not> need_start_block_stats w \<Longrightarrow> window_inv (endRecord w)"
  by (simp add: window_inv_def)

lemma window_inv_write_record: "window_inv w \<Longrightarrow> window_inv (write_record qr stats w)"
  unfolding write_record_def
  by (rule window_inv_endRecord) (simp_all add: window_inv_writeBasic window_inv_startRecord)

lemma window_inv_close: "window_inv w \<Longrightarrow> window_inv (close now w)"
proof (cases "is_open (enc w)")
  case True
  assume "window_inv w"
  then show ?thesis
    by (rule window_inv_flush [where b = "closing_block now w"]) (simp_all add: True)
next
  case False
  assume "window_inv w"
  then show ?thesis
    by (simp add: close_def False)
qed

lemma window_inv_checkForRotation:
  "window_inv w \<Longrightarrow> window_inv (checkForRotation ts due now w)"
proof (cases "is_open (enc w) \<and> due")
  case True
  assume "window_inv w"
  then show ?thesis
    by (rule window_inv_flush
          [where b = "(data w)\<lparr>end_time := Some ts,
                     last_packet_statistics := last_end_block_statistics w\<rparr>"])
       (use True in simp_all)
next
  case False
  assume "window_inv w"
  then show ?thesis
    using False by (auto simp add: window_inv_def)
qed

lemma window_inv_step: "window_inv w \<Longrightarrow> window_inv (step w op)"
  by (cases op)
     (simp_all add: window_inv_write_record window_inv_writeAE window_inv_checkForRotation
        window_inv_close)

lemma window_inv_run: "window_inv w \<Longrightarrow> window_inv (run ops w)"
  unfolding run_def
  by (induction ops arbitrary: w) (simp_all add: window_inv_step)


subsection \<open>The first block starts at zero under every operation\<close>

lemma first_inv_new: "first_inv (new_writer cfg lv now)"
  by (simp add: first_inv_def empty_block_def)

lemma first_inv_flush:
  assumes inv: "first_inv w"
    and fl: "flushed_blocks w' = flushed_blocks w @ [b]"
    and b: "start_packet_statistics b = start_packet_statistics (data w)"
  shows "first_inv w'"
  using inv b by (cases "flushed_blocks w") (simp_all add: first_inv_def fl)

lemma first_inv_update:
  assumes inv: "first_inv w"
    and fl: "flushed_blocks w' = flushed_blocks w"
    and w': "\<not> need_start_block_stats w'"
      "start_packet_statistics (data w') =
         (if need_start_block_stats w then last_end_block_statistics w
          else start_packet_statistics (data w))"
  shows "first_inv w'"
  using inv w' by (auto simp add: first_inv_def fl split: if_splits)

lemma first_inv_startRecord: "first_inv w \<Longrightarrow> first_inv (startRecord qr w)"
proof (cases "is_full (config w) (data w)")
  case True
  assume "first_inv w"
  then show ?thesis
    by (rule first_inv_flush
          [where b = "(data w)\<lparr>end_time := Some (timestamp (leading (exchange qr))),
                     last_packet_statistics := last_end_block_statistics w\<rparr>"])
       (simp_all add: True)
next
  case False
  assume "first_inv w"
  then show ?thesis
    by (simp add: first_inv_def False)
qed

lemma first_inv_writeBasic: "first_inv w \<Longrightarrow> first_inv (writeBasic qr stats w)"
  by (erule first_inv_update) simp_all

lemma first_inv_writeAE: "first_inv w \<Longrightarrow> first_inv (writeAE ae stats w)"
  by (erule first_inv_update) simp_all

lemma first_inv_endRecord: "first_inv w \<Longrightarrow> first_inv (endRecord w)"
  by (simp add: first_inv_def)

lemma first_inv_write_record: "first_inv w \<Longrightarrow> first_inv (write_record qr stats w)"
  unfolding write_record_def
  by (intro first_inv_endRecord first_inv_writeBasic first_inv_startRecord)

lemma first_inv_close: "first_inv w \<Longrightarrow> first_inv (close now w)"
proof (cases "is_open (enc w)")
  case True
  assume "first_inv w"
  then show ?thesis
    by (rule first_inv_flush [where b = "closing_block now w"]) (simp_all add: True)
next
  case False
  assume "first_inv w"
  then show ?thesis
    by (simp add: close_def False)
qed

lemma first_inv_checkForRotation:
  "first_inv w \<Longrightarrow> first_inv (checkForRotation ts due now w)"
proof (cases "is_open (enc w) \<and> due")
  case True
  assume "first_inv w"
  then show ?thesis
    by (rule first_inv_flush
          [where b = "(data w)\<lparr>end_time := Some ts,
                     last_packet_statistics := last_end_block_statistics w\<rparr>"])
       (use True in simp_all)
next
  case False
  assume "first_inv w"
  then show ?thesis
    using False by (auto simp add: first_inv_def)
qed

lemma first_inv_step: "first_inv w \<Longrightarrow> first_inv (step w op)"
  by (cases op)
     (simp_all add: first_inv_write_record first_inv_writeAE first_inv_checkForRotation
        first_inv_close)

lemma first_inv_run: "first_inv w \<Longrightarrow> first_inv (run ops w)"
  unfolding run_def
  by (induction ops arbitrary: w) (simp_all add: first_inv_step)

subsection \<open>Statistics of consecutive blocks\<close>

lemma run_snoc: "run (ops @ [op]) w = step (run ops w) op"
  by (simp add: run_def)

text \<open>An operation that flushes a block flushes the block in progress: with the starting
  counters it has at that moment and with \<^verbatim>\<open>last_end_block_statistics_\<close> as its
  last counters.\<close>

lemma step_flushes_block_in_progress:
  assumes "flushed_blocks (step w op) = flushed_blocks w @ [b]"
  shows "start_packet_statistics b = start_packet_statistics (data w)
     \<and> last_packet_statistics b = last_end_block_statistics w"
  using assms by (cases op) (auto split: if_splits)

text \<open>Claim C5, as the code has it. \<^verbatim>\<open>writeBlock\<close> stores
  \<^verbatim>\<open>last_end_block_statistics_\<close> as the last counters of the block it flushes and
  arms the flag \<^verbatim>\<open>need_start_block_stats_\<close>, and the next
  \<^verbatim>\<open>updateBlockStats\<close> copies that snapshot into the starting counters of the
  new block, clears the flag, and takes the fresh counters. So in every run of a writer,
  a block that is flushed while the flag is clear, that is, after an
  \<^verbatim>\<open>updateBlockStats\<close> has run since the flush before it, starts at the
  counters that the block flushed before it ended with. Every record and every address
  event, excluded or not, clears the flag; in particular every flushed block that holds a
  record or an address event starts at the counters its predecessor ended with.\<close>

theorem statistics_window:
  fixes w :: BlockCborWriter and cfg :: Configuration
  shows "last_packet_statistics (last (flushed_blocks (writeBlock w))) =
           last_end_block_statistics w
     \<and> need_start_block_stats (writeBlock w)
     \<and> start_packet_statistics (data (updateBlockStats stats (writeBlock w))) =
           last_packet_statistics (last (flushed_blocks (writeBlock w)))
     \<and> last_end_block_statistics (updateBlockStats stats (writeBlock w)) = stats
     \<and> \<not> need_start_block_stats (updateBlockStats stats w)
     \<and> (\<forall>op b. flushed_blocks (run ops (new_writer cfg lv born)) \<noteq> []
              \<and> \<not> need_start_block_stats (run ops (new_writer cfg lv born))
              \<and> flushed_blocks (run (ops @ [op]) (new_writer cfg lv born)) =
                  flushed_blocks (run ops (new_writer cfg lv born)) @ [b] \<longrightarrow>
          start_packet_statistics b =
            last_packet_statistics (last (flushed_blocks (run ops (new_writer cfg lv born)))))
     \<and> (\<forall>qr st. \<not> need_start_block_stats
            (run (ops @ [Record qr st]) (new_writer cfg lv born)))
     \<and> (\<forall>ae st. \<not> need_start_block_stats
            (run (ops @ [Event ae st]) (new_writer cfg lv born)))
     \<and> (\<forall>i. Suc i < length (flushed_blocks (run ops (new_writer cfg lv born))) \<and>
              has_content (flushed_blocks (run ops (new_writer cfg lv born)) ! Suc i) \<longrightarrow>
          start_packet_statistics (flushed_blocks (run ops (new_writer cfg lv born)) ! Suc i) =
            last_packet_statistics (flushed_blocks (run ops (new_writer cfg lv born)) ! i))"
proof -
  let ?w = "run ops (new_writer cfg lv born)"
  have inv: "window_inv ?w"
    by (rule window_inv_run [OF window_inv_new])
  then have win: "windowed (flushed_blocks ?w)"
    by (simp add: window_inv_def)
  have mech: "last_packet_statistics (last (flushed_blocks (writeBlock w))) =
           last_end_block_statistics w
     \<and> need_start_block_stats (writeBlock w)
     \<and> start_packet_statistics (data (updateBlockStats stats (writeBlock w))) =
           last_packet_statistics (last (flushed_blocks (writeBlock w)))
     \<and> last_end_block_statistics (updateBlockStats stats (writeBlock w)) = stats
     \<and> \<not> need_start_block_stats (updateBlockStats stats w)"
    by simp
  have upd: "\<forall>op b. flushed_blocks ?w \<noteq> [] \<and> \<not> need_start_block_stats ?w
              \<and> flushed_blocks (run (ops @ [op]) (new_writer cfg lv born)) =
                  flushed_blocks ?w @ [b] \<longrightarrow>
          start_packet_statistics b = last_packet_statistics (last (flushed_blocks ?w))"
  proof (intro allI impI)
    fix op b
    assume a: "flushed_blocks ?w \<noteq> [] \<and> \<not> need_start_block_stats ?w
              \<and> flushed_blocks (run (ops @ [op]) (new_writer cfg lv born)) =
                  flushed_blocks ?w @ [b]"
    then have "flushed_blocks (step ?w op) = flushed_blocks ?w @ [b]"
      by (simp only: run_snoc)
    then have "start_packet_statistics b = start_packet_statistics (data ?w)"
      by (simp only: step_flushes_block_in_progress)
    moreover have "start_packet_statistics (data ?w) =
        last_packet_statistics (last (flushed_blocks ?w))"
      using inv a by (simp add: window_inv_def)
    ultimately show "start_packet_statistics b =
        last_packet_statistics (last (flushed_blocks ?w))"
      by simp
  qed
  have rec: "\<forall>qr st. \<not> need_start_block_stats
            (run (ops @ [Record qr st]) (new_writer cfg lv born))"
    by (simp add: run_snoc)
  have ev: "\<forall>ae st. \<not> need_start_block_stats
            (run (ops @ [Event ae st]) (new_writer cfg lv born))"
    by (simp add: run_snoc)
  have cont: "\<forall>i. Suc i < length (flushed_blocks ?w) \<and>
              has_content (flushed_blocks ?w ! Suc i) \<longrightarrow>
          start_packet_statistics (flushed_blocks ?w ! Suc i) =
            last_packet_statistics (flushed_blocks ?w ! i)"
    using win by (simp add: windowed_def)
  from mech upd rec ev cont show ?thesis by blast
qed

subsection \<open>Statistics of the first block\<close>

text \<open>Claim C10. A new writer has all-zero \<^verbatim>\<open>last_end_block_statistics_\<close> and an
  armed flag, so its first \<^verbatim>\<open>updateBlockStats\<close> installs the zero snapshot; and
  in every run of a writer, the first block flushed starts at the all-zero counters.\<close>

theorem first_block_starts_at_zero:
  fixes cfg :: Configuration
  shows "last_end_block_statistics (new_writer cfg lv born) = zero_statistics
     \<and> need_start_block_stats (new_writer cfg lv born)
     \<and> start_packet_statistics (data (updateBlockStats stats (new_writer cfg lv born))) =
           zero_statistics
     \<and> (flushed_blocks (run ops (new_writer cfg lv born)) \<noteq> [] \<longrightarrow>
          start_packet_statistics (hd (flushed_blocks (run ops (new_writer cfg lv born)))) =
            zero_statistics)"
proof -
  have "first_inv (run ops (new_writer cfg lv born))"
    by (rule first_inv_run [OF first_inv_new])
  then show ?thesis
    by (simp add: first_inv_def)
qed

subsection \<open>The sample runs\<close>

lemma sample_run_blocks:
  "\<exists>b1 b2. flushed_blocks (run sample_run (new_writer sample_config False 0)) = [b1, b2]
      \<and> has_content b2
      \<and> last_packet_statistics b1 = sample_statistics"
proof -
  define w0 where "w0 = new_writer sample_config False 0"
  define w1 where "w1 = checkForRotation 0 False 0 w0"
  define w2 where "w2 = write_record sample_query_only sample_statistics w1"
  define w3 where "w3 = write_record sample_transaction sample_statistics w2"
  define w4 where "w4 = write_record sample_response_only later_statistics w3"
  define w5 where "w5 = close 9 w4"
  have r: "run sample_run (new_writer sample_config False 0) = w5"
    by (simp only: run_def sample_run_def foldl.simps step.simps w5_def w4_def w3_def
        w2_def w1_def w0_def)
  have cfg: "max_block_items (config w0) = 2" "config w1 = config w0"
      "config w2 = config w0" "config w3 = config w0"
    by (simp_all add: w0_def w1_def w2_def w3_def sample_config_def)
  have s1: "query_response_items (data w1) = []" "flushed_blocks w1 = []" "is_open (enc w1)"
    by (simp_all add: w1_def w0_def empty_block_def)
  have f1: "\<not> is_full (config w1) (data w1)"
    by (simp add: is_full_def cfg s1)
  have s2: "length (query_response_items (data w2)) = 1" "flushed_blocks w2 = []"
      "is_open (enc w2)"
    unfolding w2_def by (simp_all add: write_record_items f1 s1)
  have f2: "\<not> is_full (config w2) (data w2)"
    by (simp add: is_full_def cfg s2)
  have s3: "length (query_response_items (data w3)) = 2" "flushed_blocks w3 = []"
      "is_open (enc w3)" "last_end_block_statistics w3 = sample_statistics"
    unfolding w3_def by (simp_all add: write_record_items f2 s2)
  have f3: "is_full (config w3) (data w3)"
    by (simp add: is_full_def cfg s3)
  have s4: "query_response_items (data w4) \<noteq> []" "is_open (enc w4)"
      "flushed_blocks w4 =
         [(data w3)\<lparr>end_time := Some (timestamp (leading (exchange sample_response_only))),
                    last_packet_statistics := last_end_block_statistics w3\<rparr>]"
    unfolding w4_def by (simp_all add: write_record_items f3 s3)
  have s5: "flushed_blocks w5 =
         [(data w3)\<lparr>end_time := Some (timestamp (leading (exchange sample_response_only))),
                    last_packet_statistics := last_end_block_statistics w3\<rparr>,
          closing_block 9 w4]"
    unfolding w5_def by (simp add: s4)
  have "has_content (data w4)"
    by (simp add: has_content_def s4)
  then have "has_content (closing_block 9 w4)"
    by simp
  then show ?thesis
    by (simp add: r s5 s3)
qed

lemma event_run_state:
  "\<exists>b1. flushed_blocks (run event_run (new_writer events_excluded_config False 0)) = [b1]
      \<and> last_packet_statistics b1 = sample_statistics
      \<and> \<not> need_start_block_stats (run event_run (new_writer events_excluded_config False 0))
      \<and> is_open (enc (run event_run (new_writer events_excluded_config False 0)))
      \<and> \<not> has_content (data (run event_run (new_writer events_excluded_config False 0)))"
proof -
  define w0 where "w0 = new_writer events_excluded_config False 0"
  define w1 where "w1 = checkForRotation 0 False 0 w0"
  define w2 where "w2 = write_record sample_query_only sample_statistics w1"
  define w3 where "w3 = checkForRotation 5 True 5 w2"
  define w4 where "w4 = writeAE sample_event later_statistics w3"
  have r: "run event_run (new_writer events_excluded_config False 0) = w4"
    by (simp only: run_def event_run_def foldl.simps step.simps w4_def w3_def
        w2_def w1_def w0_def)
  have cfg: "max_block_items (config w0) = 2" "config w1 = config w0"
      "exclude_address_events (exclude_hints (config w0))"
    by (simp_all add: w0_def w1_def events_excluded_config_def sample_config_def)
  have s1: "query_response_items (data w1) = []" "flushed_blocks w1 = []" "is_open (enc w1)"
    by (simp_all add: w1_def w0_def empty_block_def)
  have f1: "\<not> is_full (config w1) (data w1)" "\<not> is_full (config w0) (data w1)"
    by (simp_all add: is_full_def cfg s1)
  have s2: "flushed_blocks w2 = []" "is_open (enc w2)"
      "last_end_block_statistics w2 = sample_statistics" "config w2 = config w0"
    unfolding w2_def by (simp_all add: f1 s1 cfg)
  have s3: "flushed_blocks w3 =
        [(data w2)\<lparr>end_time := Some 5, last_packet_statistics := sample_statistics\<rparr>]"
      "is_open (enc w3)" "data w3 = empty_block\<lparr>start_time := Some 5\<rparr>"
      "config w3 = config w0"
    unfolding w3_def by (simp_all add: s2)
  have d4: "data w4 = (data w3)\<lparr>start_packet_statistics := last_end_block_statistics w3\<rparr>
      \<or> data w4 = data w3"
    unfolding w4_def by (simp add: writeAE_def updateBlockStats_def Let_def s3 cfg)
  have s4: "flushed_blocks w4 =
        [(data w2)\<lparr>end_time := Some 5, last_packet_statistics := sample_statistics\<rparr>]"
      "is_open (enc w4)" "\<not> need_start_block_stats w4"
    unfolding w4_def by (simp_all add: s3)
  have c4: "\<not> has_content (data w4)"
    using d4 by (auto simp add: has_content_def s3 empty_block_def)
  show ?thesis
    by (simp add: r s4 c4)
qed

text \<open>In the sample run, the second block holds the third record and starts at the
  counters of the second record, with which the first block ended. In the run with
  excluded address events, the block flushed at the end holds nothing, an update has run
  for it, and it starts at the counters with which the block before it ended.\<close>

theorem statistics_window_witness:
  "length (flushed_blocks (run sample_run (new_writer sample_config False 0))) = 2
   \<and> start_packet_statistics
        (flushed_blocks (run sample_run (new_writer sample_config False 0)) ! Suc 0) =
       last_packet_statistics
        (flushed_blocks (run sample_run (new_writer sample_config False 0)) ! 0)
   \<and> last_packet_statistics
        (flushed_blocks (run sample_run (new_writer sample_config False 0)) ! 0) =
       sample_statistics
   \<and> length (flushed_blocks (run (event_run @ [Close 9])
        (new_writer events_excluded_config False 0))) = 2
   \<and> \<not> has_content (flushed_blocks (run (event_run @ [Close 9])
        (new_writer events_excluded_config False 0)) ! Suc 0)
   \<and> start_packet_statistics (flushed_blocks (run (event_run @ [Close 9])
        (new_writer events_excluded_config False 0)) ! Suc 0) = sample_statistics
   \<and> last_packet_statistics (flushed_blocks (run (event_run @ [Close 9])
        (new_writer events_excluded_config False 0)) ! 0) = sample_statistics"
proof -
  obtain b1 b2 where
    b: "flushed_blocks (run sample_run (new_writer sample_config False 0)) = [b1, b2]"
      "has_content b2" "last_packet_statistics b1 = sample_statistics"
    using sample_run_blocks by blast
  have "Suc 0 < length (flushed_blocks (run sample_run (new_writer sample_config False 0)))
      \<and> has_content (flushed_blocks (run sample_run (new_writer sample_config False 0)) ! Suc 0)"
    by (simp add: b)
  then have "start_packet_statistics
        (flushed_blocks (run sample_run (new_writer sample_config False 0)) ! Suc 0) =
       last_packet_statistics
        (flushed_blocks (run sample_run (new_writer sample_config False 0)) ! 0)"
    using statistics_window [where ops = sample_run and cfg = sample_config
        and lv = False and born = 0]
    by blast
  then have first: "length (flushed_blocks (run sample_run (new_writer sample_config False 0))) = 2
   \<and> start_packet_statistics
        (flushed_blocks (run sample_run (new_writer sample_config False 0)) ! Suc 0) =
       last_packet_statistics
        (flushed_blocks (run sample_run (new_writer sample_config False 0)) ! 0)
   \<and> last_packet_statistics
        (flushed_blocks (run sample_run (new_writer sample_config False 0)) ! 0) =
       sample_statistics"
    by (simp add: b)
  define v where "v = run event_run (new_writer events_excluded_config False 0)"
  obtain c1 where
    c: "flushed_blocks v = [c1]" "last_packet_statistics c1 = sample_statistics"
      "\<not> need_start_block_stats v" "is_open (enc v)" "\<not> has_content (data v)"
    using event_run_state unfolding v_def by blast
  have fl: "flushed_blocks (run (event_run @ [Close 9])
        (new_writer events_excluded_config False 0)) = flushed_blocks v @ [closing_block 9 v]"
    by (simp add: run_snoc v_def [symmetric] c)
  have "flushed_blocks v \<noteq> [] \<and> \<not> need_start_block_stats v
      \<and> flushed_blocks (run (event_run @ [Close 9])
        (new_writer events_excluded_config False 0)) = flushed_blocks v @ [closing_block 9 v]"
    using fl c by simp
  then have "start_packet_statistics (closing_block 9 v) =
      last_packet_statistics (last (flushed_blocks v))"
    unfolding v_def
    using statistics_window [where ops = event_run and cfg = events_excluded_config
        and lv = False and born = 0]
    by blast
  then have st: "start_packet_statistics (data v) = sample_statistics"
    by (simp add: c)
  have second: "length (flushed_blocks (run (event_run @ [Close 9])
        (new_writer events_excluded_config False 0))) = 2
   \<and> \<not> has_content (flushed_blocks (run (event_run @ [Close 9])
        (new_writer events_excluded_config False 0)) ! Suc 0)
   \<and> start_packet_statistics (flushed_blocks (run (event_run @ [Close 9])
        (new_writer events_excluded_config False 0)) ! Suc 0) = sample_statistics
   \<and> last_packet_statistics (flushed_blocks (run (event_run @ [Close 9])
        (new_writer events_excluded_config False 0)) ! 0) = sample_statistics"
    by (simp add: fl c st)
  from first second show ?thesis by blast
qed

text \<open>In the sample run, the first block starts at zero.\<close>

theorem first_block_starts_at_zero_witness:
  "flushed_blocks (run sample_run (new_writer sample_config False 0)) \<noteq> []
   \<and> start_packet_statistics
        (hd (flushed_blocks (run sample_run (new_writer sample_config False 0)))) =
       zero_statistics"
proof -
  obtain b1 b2 where
    b: "flushed_blocks (run sample_run (new_writer sample_config False 0)) = [b1, b2]"
    using sample_run_blocks by blast
  then have ne: "flushed_blocks (run sample_run (new_writer sample_config False 0)) \<noteq> []"
    by simp
  then show ?thesis
    using first_block_starts_at_zero [where ops = sample_run and cfg = sample_config
        and lv = False and born = 0]
    by blast
qed

text \<open>Claim C5 as stated, at the rotated run: the file is rotated after one record,
  which flushes a first block ending with the counters of that record, and the writer is
  closed before another record or event arrives, which flushes a second, empty block. No
  update has set the starting counters of the second block: they are zero, not the
  counters the first block ended with.\<close>

theorem statistics_window_skips_empty_block:
  "length (flushed_blocks (run rotated_run (new_writer sample_config False 0))) = 2
   \<and> last_packet_statistics
        (flushed_blocks (run rotated_run (new_writer sample_config False 0)) ! 0) =
       sample_statistics
   \<and> start_packet_statistics
        (flushed_blocks (run rotated_run (new_writer sample_config False 0)) ! Suc 0) =
       zero_statistics
   \<and> start_packet_statistics
        (flushed_blocks (run rotated_run (new_writer sample_config False 0)) ! Suc 0) \<noteq>
       last_packet_statistics
        (flushed_blocks (run rotated_run (new_writer sample_config False 0)) ! 0)"
proof -
  define w0 where "w0 = new_writer sample_config False 0"
  define w1 where "w1 = checkForRotation 0 False 0 w0"
  define w2 where "w2 = write_record sample_query_only sample_statistics w1"
  define w3 where "w3 = checkForRotation 5 True 5 w2"
  define w4 where "w4 = close 9 w3"
  have r: "run rotated_run (new_writer sample_config False 0) = w4"
    by (simp only: run_def rotated_run_def foldl.simps step.simps w4_def w3_def
        w2_def w1_def w0_def)
  have cfg: "max_block_items (config w0) = 2" "config w1 = config w0"
    by (simp_all add: w0_def w1_def sample_config_def)
  have s1: "query_response_items (data w1) = []" "flushed_blocks w1 = []" "is_open (enc w1)"
    by (simp_all add: w1_def w0_def empty_block_def)
  have f1: "\<not> is_full (config w1) (data w1)"
    by (simp add: is_full_def cfg s1)
  have s2: "flushed_blocks w2 = []" "is_open (enc w2)"
      "last_end_block_statistics w2 = sample_statistics"
    unfolding w2_def by (simp_all add: f1 s1)
  have s3: "flushed_blocks w3 =
        [(data w2)\<lparr>end_time := Some 5, last_packet_statistics := sample_statistics\<rparr>]"
      "is_open (enc w3)" "data w3 = empty_block\<lparr>start_time := Some 5\<rparr>"
    unfolding w3_def by (simp_all add: s2)
  have s4: "flushed_blocks w4 =
        [(data w2)\<lparr>end_time := Some 5, last_packet_statistics := sample_statistics\<rparr>,
         closing_block 9 w3]"
    unfolding w4_def by (simp add: s3)
  have z: "start_packet_statistics (data w3) = zero_statistics"
    by (simp add: s3 empty_block_def)
  have ne: "zero_statistics \<noteq> sample_statistics"
    by (simp add: zero_statistics_def sample_statistics_def)
  show ?thesis
    using ne by (simp add: r s4 z)
qed

subsection \<open>Time bounds of a block\<close>

lemma basic_times_simps:
  "earliest_time (basic_times cfg d b) =
     (if query_response_items b = [] \<or> timestamp d < earliest_time b
      then timestamp d else earliest_time b)"
  "start_time (basic_times cfg d b) =
     (if start_end_times_from_data cfg
      then Some (case start_time b of None \<Rightarrow> timestamp d | Some s \<Rightarrow> min (timestamp d) s)
      else start_time b)"
  "end_time (basic_times cfg d b) =
     (if start_end_times_from_data cfg
      then Some (case end_time b of None \<Rightarrow> timestamp d | Some e \<Rightarrow> max (timestamp d) e)
      else end_time b)"
  by (auto simp add: basic_times_def Let_def split: option.split)

lemma write_record_not_full:
  assumes "\<not> is_full (config w) (data w)"
  shows "flushed_blocks (write_record qr stats w) = flushed_blocks w"
    and "length (query_response_items (data (write_record qr stats w))) =
           Suc (length (query_response_items (data w)))"
    and "earliest_time (data (write_record qr stats w)) =
           earliest_time (basic_times (config w) (leading (exchange qr)) (data w))"
    and "start_time (data (write_record qr stats w)) =
           start_time (basic_times (config w) (leading (exchange qr)) (data w))"
    and "end_time (data (write_record qr stats w)) =
           end_time (basic_times (config w) (leading (exchange qr)) (data w))"
  using assms
  by (simp_all add: write_record_items) (simp_all add: write_record_def writeBasic_times)


lemma write_records_config [simp]: "config (write_records rs w) = config w"
  by (induction rs arbitrary: w) auto





lemma records_unset:
  "\<not> start_end_times_from_data (config w) \<Longrightarrow>
   length (query_response_items (data w)) + length rs \<le> max_block_items (config w) \<Longrightarrow>
   start_time (data (write_records rs w)) = start_time (data w) \<and>
   end_time (data (write_records rs w)) = end_time (data w)"
proof (induction rs arbitrary: w)
  case Nil
  then show ?case by simp
next
  case (Cons r rs)
  obtain qr stats where r: "r = (qr, stats)" by (cases r)
  let ?w1 = "write_record qr stats w"
  from Cons.prems have nf: "\<not> is_full (config w) (data w)"
    by (simp add: is_full_def)
  have cfg: "\<not> start_end_times_from_data (config ?w1)"
    using Cons.prems by simp
  have room: "length (query_response_items (data ?w1)) + length rs
      \<le> max_block_items (config ?w1)"
    using Cons.prems by (simp add: write_record_not_full [OF nf])
  from Cons.IH [OF cfg room] Cons.prems(1) show ?case
    by (simp add: r write_record_not_full [OF nf] basic_times_simps)
qed











end
